theory Spec2Isabelle
  imports Complex_Main "HOL-Library.Word"
begin

unbundle bit_operations_syntax

section \<open>Machine types\<close>

type_synonym u8 = "8 word"
type_synonym u16 = "16 word"
type_synonym u32 = "32 word"
type_synonym u64 = "64 word"

text \<open>A signed 32-bit value (\<open>s32\<close>, \<open>int\<close>) is kept as its bit pattern and read with
  \<open>sint\<close>; its conversion to a wider type is \<open>scast\<close> (sign extension). A signed
  64-bit argument (\<open>s64\<close>) is kept as its bit pattern too.\<close>

type_synonym s32 = "32 word"
type_synonym s64 = "64 word"

text \<open>What the C program does where it leaves defined behaviour: a read past the end of
  an array (with the index read), a dereference of a null pointer, a division by zero.\<close>

datatype fault = OutOfBounds nat | NullDeref | DivByZero

definition bindF :: "fault + 'a \<Rightarrow> ('a \<Rightarrow> fault + 'b) \<Rightarrow> fault + 'b" where
  "bindF m f = (case m of Inl e \<Rightarrow> Inl e | Inr x \<Rightarrow> f x)"

section \<open>Constants of the driver\<close>

abbreviation (input) IMX586_REG_MODE_SELECT :: u16 where "IMX586_REG_MODE_SELECT \<equiv> 0x3000"
abbreviation (input) IMX586_MODE_STANDBY :: u8 where "IMX586_MODE_STANDBY \<equiv> 0x01"
abbreviation (input) IMX586_MODE_STREAMING :: u8 where "IMX586_MODE_STREAMING \<equiv> 0x00"
abbreviation (input) IMX586_REG_VMAX :: u16 where "IMX586_REG_VMAX \<equiv> 0x3028"
abbreviation (input) IMX586_VMAX_MAX :: u32 where "IMX586_VMAX_MAX \<equiv> 0xfffff"
abbreviation (input) IMX586_REG_HMAX :: u16 where "IMX586_REG_HMAX \<equiv> 0x302C"
abbreviation (input) IMX586_HMAX_MAX :: u64 where "IMX586_HMAX_MAX \<equiv> 0xffff"
abbreviation (input) IMX586_REG_SHR :: u16 where "IMX586_REG_SHR \<equiv> 0x3050"
abbreviation (input) IMX586_EXPOSURE_MIN :: s64 where "IMX586_EXPOSURE_MIN \<equiv> 52"
abbreviation (input) IMX586_EXPOSURE_STEP :: u64 where "IMX586_EXPOSURE_STEP \<equiv> 1"
abbreviation (input) IMX586_EXPOSURE_DEFAULT :: s64 where "IMX586_EXPOSURE_DEFAULT \<equiv> 1000"
abbreviation (input) IMX586_EXPOSURE_MAX :: s64 where "IMX586_EXPOSURE_MAX \<equiv> 49865"
abbreviation (input) IMX586_REG_EXP_TH_H :: u16 where "IMX586_REG_EXP_TH_H \<equiv> 0x36D0"
abbreviation (input) IMX586_REG_EXP_TH_L :: u16 where "IMX586_REG_EXP_TH_L \<equiv> 0x36D4"
abbreviation (input) IMX586_REG_EXP_BK :: u16 where "IMX586_REG_EXP_BK \<equiv> 0x36E2"
abbreviation (input) IMX586_REG_CCMP1_EXP :: u16 where "IMX586_REG_CCMP1_EXP \<equiv> 0x36E8"
abbreviation (input) IMX586_REG_CCMP2_EXP :: u16 where "IMX586_REG_CCMP2_EXP \<equiv> 0x36E4"
abbreviation (input) IMX586_REG_ACMP1_EXP :: u16 where "IMX586_REG_ACMP1_EXP \<equiv> 0x36EE"
abbreviation (input) IMX586_REG_ACMP2_EXP :: u16 where "IMX586_REG_ACMP2_EXP \<equiv> 0x36EC"
abbreviation (input) IMX586_REG_BLKLEVEL :: u16 where "IMX586_REG_BLKLEVEL \<equiv> 0x30DC"
abbreviation (input) IMX586_BLKLEVEL_DEFAULT :: u16 where "IMX586_BLKLEVEL_DEFAULT \<equiv> 0"
abbreviation (input) IMX586_REG_DIGITAL_CLAMP :: u16 where "IMX586_REG_DIGITAL_CLAMP \<equiv> 0x3458"
abbreviation (input) IMX586_REG_ANALOG_GAIN :: u16 where "IMX586_REG_ANALOG_GAIN \<equiv> 0x306C"
abbreviation (input) IMX586_REG_FDG_SEL0 :: u16 where "IMX586_REG_FDG_SEL0 \<equiv> 0x3030"
abbreviation (input) IMX586_ANA_GAIN_MIN :: s64 where "IMX586_ANA_GAIN_MIN \<equiv> 0"
abbreviation (input) IMX586_ANA_GAIN_MAX :: s64 where "IMX586_ANA_GAIN_MAX \<equiv> 240"
abbreviation (input) IMX586_ANA_GAIN_STEP :: u64 where "IMX586_ANA_GAIN_STEP \<equiv> 1"
abbreviation (input) IMX586_ANA_GAIN_DEFAULT :: s64 where "IMX586_ANA_GAIN_DEFAULT \<equiv> 0"
abbreviation (input) IMX586_ANA_GAIN_HCG_LEVEL :: int where "IMX586_ANA_GAIN_HCG_LEVEL \<equiv> 51"
abbreviation (input) IMX586_ANA_GAIN_HCG_THRESHOLD :: int where
  "IMX586_ANA_GAIN_HCG_THRESHOLD \<equiv> IMX586_ANA_GAIN_HCG_LEVEL + 29"
abbreviation (input) IMX586_ANA_GAIN_HCG_MIN :: int where "IMX586_ANA_GAIN_HCG_MIN \<equiv> 34"
abbreviation (input) IMX586_FLIP_WINMODEH :: u16 where "IMX586_FLIP_WINMODEH \<equiv> 0x3020"
abbreviation (input) IMX586_FLIP_WINMODEV :: u16 where "IMX586_FLIP_WINMODEV \<equiv> 0x3021"
abbreviation (input) IMX586_EMBEDDED_LINE_WIDTH :: u32 where "IMX586_EMBEDDED_LINE_WIDTH \<equiv> 16384"
abbreviation (input) IMX586_NUM_EMBEDDED_LINES :: u32 where "IMX586_NUM_EMBEDDED_LINES \<equiv> 1"
abbreviation (input) IMX586_PIXEL_RATE :: u64 where "IMX586_PIXEL_RATE \<equiv> 74250000"
abbreviation (input) IMX586_PIXEL_ARRAY_LEFT :: u32 where "IMX586_PIXEL_ARRAY_LEFT \<equiv> 8"
abbreviation (input) IMX586_PIXEL_ARRAY_TOP :: u32 where "IMX586_PIXEL_ARRAY_TOP \<equiv> 8"
abbreviation (input) IMX586_PIXEL_ARRAY_WIDTH :: u32 where "IMX586_PIXEL_ARRAY_WIDTH \<equiv> 3840"
abbreviation (input) IMX586_PIXEL_ARRAY_HEIGHT :: u32 where "IMX586_PIXEL_ARRAY_HEIGHT \<equiv> 2160"

text \<open>\<open>enum pad_types\<close>.\<close>

abbreviation (input) IMAGE_PAD :: nat where "IMAGE_PAD \<equiv> 0"
abbreviation (input) METADATA_PAD :: nat where "METADATA_PAD \<equiv> 1"
abbreviation (input) NUM_PADS :: nat where "NUM_PADS \<equiv> 2"

text \<open>Error numbers of the kernel.\<close>

abbreviation (input) EIO :: int where "EIO \<equiv> 5"
abbreviation (input) EBUSY :: int where "EBUSY \<equiv> 16"
abbreviation (input) EINVAL :: int where "EINVAL \<equiv> 22"

text \<open>Media bus format codes. \<open>MEDIA_BUS_FMT_SENSOR_DATA\<close> is defined by the driver; the
  others are the values of the kernel's media-bus-format.h, which the driver includes.\<close>

definition MEDIA_BUS_FMT_SENSOR_DATA :: u32 where "MEDIA_BUS_FMT_SENSOR_DATA = 0x7002"
definition MEDIA_BUS_FMT_SRGGB16_1X16 :: u32 where "MEDIA_BUS_FMT_SRGGB16_1X16 = 0x3020"
definition MEDIA_BUS_FMT_SGRBG16_1X16 :: u32 where "MEDIA_BUS_FMT_SGRBG16_1X16 = 0x301f"
definition MEDIA_BUS_FMT_SGBRG16_1X16 :: u32 where "MEDIA_BUS_FMT_SGBRG16_1X16 = 0x301e"
definition MEDIA_BUS_FMT_SBGGR16_1X16 :: u32 where "MEDIA_BUS_FMT_SBGGR16_1X16 = 0x301d"
definition MEDIA_BUS_FMT_SRGGB12_1X12 :: u32 where "MEDIA_BUS_FMT_SRGGB12_1X12 = 0x3012"
definition MEDIA_BUS_FMT_SGRBG12_1X12 :: u32 where "MEDIA_BUS_FMT_SGRBG12_1X12 = 0x3011"
definition MEDIA_BUS_FMT_SGBRG12_1X12 :: u32 where "MEDIA_BUS_FMT_SGBRG12_1X12 = 0x3010"
definition MEDIA_BUS_FMT_SBGGR12_1X12 :: u32 where "MEDIA_BUS_FMT_SBGGR12_1X12 = 0x3008"
definition MEDIA_BUS_FMT_Y16_1X16 :: u32 where "MEDIA_BUS_FMT_Y16_1X16 = 0x202e"
definition MEDIA_BUS_FMT_Y12_1X12 :: u32 where "MEDIA_BUS_FMT_Y12_1X12 = 0x2013"

text \<open>The enumerations of the V4L2 interface that the driver names.\<close>

datatype v4l2_xfer_func =
  V4L2_XFER_FUNC_DEFAULT | V4L2_XFER_FUNC_NONE | V4L2_XFER_FUNC_GRADATION_COMPRESSION
  | V4L2_XFER_FUNC_OTHER u32

datatype v4l2_field = V4L2_FIELD_ANY | V4L2_FIELD_NONE
datatype v4l2_colorspace = V4L2_COLORSPACE_DEFAULT | V4L2_COLORSPACE_RAW
datatype v4l2_ycbcr_encoding = V4L2_YCBCR_ENC_DEFAULT | V4L2_YCBCR_ENC_601
datatype v4l2_quantization = V4L2_QUANTIZATION_DEFAULT | V4L2_QUANTIZATION_FULL_RANGE
datatype v4l2_subdev_format_whence = V4L2_SUBDEV_FORMAT_TRY | V4L2_SUBDEV_FORMAT_ACTIVE

datatype ctrl_id =
  V4L2_CID_PIXEL_RATE | V4L2_CID_VBLANK | V4L2_CID_HBLANK | V4L2_CID_EXPOSURE
  | V4L2_CID_ANALOGUE_GAIN | V4L2_CID_HFLIP | V4L2_CID_VFLIP | V4L2_CID_OTHER u32

section \<open>Register tables and the mode catalog\<close>

text \<open>\<open>struct imx586_reg\<close> is the pair (address, val); \<open>struct IMX586_reg_list\<close>
  (a length and a pointer) is the list of its entries.\<close>

type_synonym imx586_reg = "u16 \<times> u8"

definition mode_common_regs :: "imx586_reg list" where
  "mode_common_regs = [
    (0x3002, 0x01), (0x301A, 0x00), (0x301B, 0x00), (0x3024, 0x00), (0x3069, 0x00), (0x3074, 0x64),
    (0x30D5, 0x04), (0x3930, 0x0C), (0x3931, 0x01), (0x3A4C, 0x39), (0x3A4D, 0x01), (0x3A50, 0x48),
    (0x3A51, 0x01), (0x3E10, 0x10), (0x493C, 0x23), (0x4940, 0x41), (0x3014, 0x04), (0x3015, 0x02),
    (0x3030, 0x00), (0x3040, 0x03), (0x3023, 0x01), (0x30A6, 0x00), (0x3081, 0x00), (0x3460, 0x21),
    (0x3478, 0xA1), (0x347C, 0x01), (0x3480, 0x01), (0x3A4E, 0x14), (0x3A52, 0x14), (0x3A56, 0x00),
    (0x3A5A, 0x00), (0x3A5E, 0x00), (0x3A62, 0x00), (0x3A6A, 0x20), (0x3A6C, 0x42), (0x3A6E, 0xA0),
    (0x3B2C, 0x0C), (0x3B30, 0x1C), (0x3B34, 0x0C), (0x3B38, 0x1C), (0x3BA0, 0x0C), (0x3BA4, 0x1C),
    (0x3BA8, 0x0C), (0x3BAC, 0x1C), (0x3D3C, 0x11), (0x3D46, 0x0B), (0x3DE0, 0x3F), (0x3DE1, 0x08),
    (0x3E14, 0x87), (0x3E16, 0x91), (0x3E18, 0x91), (0x3E1A, 0x87), (0x3E1C, 0x78), (0x3E1E, 0x50),
    (0x3E20, 0x50), (0x3E22, 0x50), (0x3E24, 0x87), (0x3E26, 0x91), (0x3E28, 0x91), (0x3E2A, 0x87),
    (0x3E2C, 0x78), (0x3E2E, 0x50), (0x3E30, 0x50), (0x3E32, 0x50), (0x3E34, 0x87), (0x3E36, 0x91),
    (0x3E38, 0x91), (0x3E3A, 0x87), (0x3E3C, 0x78), (0x3E3E, 0x50), (0x3E40, 0x50), (0x3E42, 0x50),
    (0x4054, 0x64), (0x4148, 0xFE), (0x4149, 0x05), (0x414A, 0xFF), (0x414B, 0x05), (0x420A, 0x03),
    (0x4231, 0x08), (0x423D, 0x9C), (0x4242, 0xB4), (0x4246, 0xB4), (0x424E, 0xB4), (0x425C, 0xB4),
    (0x425E, 0xB6), (0x426C, 0xB4), (0x426E, 0xB6), (0x428C, 0xB4), (0x428E, 0xB6), (0x4708, 0x00),
    (0x4709, 0x00), (0x470A, 0xFF), (0x470B, 0x03), (0x470C, 0x00), (0x470D, 0x00), (0x470E, 0xFF),
    (0x470F, 0x03), (0x47EB, 0x1C), (0x47F0, 0xA6), (0x47F2, 0xA6), (0x47F4, 0xA0), (0x47F6, 0x96),
    (0x4808, 0xA6), (0x480A, 0xA6), (0x480C, 0xA0), (0x480E, 0x96), (0x492C, 0xB2), (0x4930, 0x03),
    (0x4932, 0x03), (0x4936, 0x5B), (0x4938, 0x82), (0x493E, 0x23), (0x4BA8, 0x1C), (0x4BA9, 0x03),
    (0x4BAC, 0x1C), (0x4BAD, 0x1C), (0x4BAE, 0x1C), (0x4BAF, 0x1C), (0x4BB0, 0x1C), (0x4BB1, 0x1C),
    (0x4BB2, 0x1C), (0x4BB3, 0x1C), (0x4BB4, 0x1C), (0x4BB8, 0x03), (0x4BB9, 0x03), (0x4BBA, 0x03),
    (0x4BBB, 0x03), (0x4BBC, 0x03), (0x4BBD, 0x03), (0x4BBE, 0x03), (0x4BBF, 0x03), (0x4BC0, 0x03),
    (0x4C14, 0x87), (0x4C16, 0x91), (0x4C18, 0x91), (0x4C1A, 0x87), (0x4C1C, 0x78), (0x4C1E, 0x50),
    (0x4C20, 0x50), (0x4C22, 0x50), (0x4C24, 0x87), (0x4C26, 0x91), (0x4C28, 0x91), (0x4C2A, 0x87),
    (0x4C2C, 0x78), (0x4C2E, 0x50), (0x4C30, 0x50), (0x4C32, 0x50), (0x4C34, 0x87), (0x4C36, 0x91),
    (0x4C38, 0x91), (0x4C3A, 0x87), (0x4C3C, 0x78), (0x4C3E, 0x50), (0x4C40, 0x50), (0x4C42, 0x50),
    (0x4D12, 0x1F), (0x4D13, 0x1E), (0x4D26, 0x33), (0x4E0E, 0x59), (0x4E14, 0x55), (0x4E16, 0x59),
    (0x4E1E, 0x3B), (0x4E20, 0x47), (0x4E22, 0x54), (0x4E26, 0x81), (0x4E2C, 0x7D), (0x4E2E, 0x81),
    (0x4E36, 0x63), (0x4E38, 0x6F), (0x4E3A, 0x7C), (0x4F3A, 0x3C), (0x4F3C, 0x46), (0x4F3E, 0x59),
    (0x4F42, 0x64), (0x4F44, 0x6E), (0x4F46, 0x81), (0x4F4A, 0x82), (0x4F5A, 0x81), (0x4F62, 0xAA),
    (0x4F72, 0xA9), (0x4F78, 0x36), (0x4F7A, 0x41), (0x4F7C, 0x61), (0x4F7D, 0x01), (0x4F7E, 0x7C),
    (0x4F7F, 0x01), (0x4F80, 0x77), (0x4F82, 0x7B), (0x4F88, 0x37), (0x4F8A, 0x40), (0x4F8C, 0x62),
    (0x4F8D, 0x01), (0x4F8E, 0x76), (0x4F8F, 0x01), (0x4F90, 0x5E), (0x4F91, 0x02), (0x4F92, 0x69),
    (0x4F93, 0x02), (0x4F94, 0x89), (0x4F95, 0x02), (0x4F96, 0xA4), (0x4F97, 0x02), (0x4F98, 0x9F),
    (0x4F99, 0x02), (0x4F9A, 0xA3), (0x4F9B, 0x02), (0x4FA0, 0x5F), (0x4FA1, 0x02), (0x4FA2, 0x68),
    (0x4FA3, 0x02), (0x4FA4, 0x8A), (0x4FA5, 0x02), (0x4FA6, 0x9E), (0x4FA7, 0x02), (0x519E, 0x79),
    (0x51A6, 0xA1), (0x51F0, 0xAC), (0x51F2, 0xAA), (0x51F4, 0xA5), (0x51F6, 0xA0), (0x5200, 0x9B),
    (0x5202, 0x91), (0x5204, 0x87), (0x5206, 0x82), (0x5208, 0xAC), (0x520A, 0xAA), (0x520C, 0xA5),
    (0x520E, 0xA0), (0x5210, 0x9B), (0x5212, 0x91), (0x5214, 0x87), (0x5216, 0x82), (0x5218, 0xAC),
    (0x521A, 0xAA), (0x521C, 0xA5), (0x521E, 0xA0), (0x5220, 0x9B), (0x5222, 0x91), (0x5224, 0x87),
    (0x5226, 0x82), (0x3002, 0x00)]"

definition mode_4k_regs :: "imx586_reg list" where
  "mode_4k_regs = [
    (0x301A, 0x00), (0x301B, 0x00), (0x3022, 0x02), (0x3023, 0x01), (0x3024, 0x00), (0x36EF, 0x00),
    (0x3069, 0x00), (0x3074, 0x64), (0x30D5, 0x04), (0x3930, 0x0C), (0x3931, 0x01), (0x3A4C, 0x39),
    (0x3A4D, 0x01), (0x3A50, 0x48), (0x3A51, 0x01), (0x3E10, 0x10), (0x493C, 0x23), (0x4940, 0x41)]"

definition mode_1080_regs :: "imx586_reg list" where
  "mode_1080_regs = [
    (0x301A, 0x00), (0x301B, 0x01), (0x3022, 0x00), (0x3023, 0x01), (0x3024, 0x00), (0x36EF, 0x00),
    (0x3069, 0x00), (0x3074, 0x64), (0x30D5, 0x02), (0x3930, 0x0C), (0x3931, 0x01), (0x3A4C, 0x39),
    (0x3A4D, 0x01), (0x3A50, 0x48), (0x3A51, 0x01), (0x3E10, 0x10), (0x493C, 0x23), (0x4940, 0x41)]"

definition mode_4k_nonlinear_regs :: "imx586_reg list" where
  "mode_4k_nonlinear_regs = [
    (0x301A, 0x10), (0x301B, 0x00), (0x3022, 0x02), (0x3023, 0x01), (0x3024, 0x02), (0x36EF, 0x01),
    (0x3030, 0x00), (0x3069, 0x02), (0x3074, 0x63), (0x3081, 0x02), (0x30D5, 0x02), (0x3930, 0xE6),
    (0x3931, 0x00), (0x3A4C, 0x61), (0x3A4D, 0x02), (0x3A50, 0x70), (0x3A51, 0x02), (0x3E10, 0x17),
    (0x493C, 0x41), (0x4940, 0x41)]"

definition mode_4k_16bit_regs :: "imx586_reg list" where
  "mode_4k_16bit_regs = [
    (0x301A, 0x10), (0x301B, 0x00), (0x3022, 0x02), (0x3023, 0x03), (0x3024, 0x02), (0x36EF, 0x00),
    (0x3030, 0x00), (0x3069, 0x02), (0x3074, 0x63), (0x3081, 0x02), (0x30D5, 0x02), (0x3930, 0xE6),
    (0x3931, 0x00), (0x3A4C, 0x61), (0x3A4D, 0x02), (0x3A50, 0x70), (0x3A51, 0x02), (0x3E10, 0x17),
    (0x493C, 0x41), (0x4940, 0x41)]"

definition mode_1080_16bit_regs :: "imx586_reg list" where
  "mode_1080_16bit_regs = [
    (0x301A, 0x10), (0x301B, 0x01), (0x3022, 0x02), (0x3023, 0x03), (0x3024, 0x02), (0x36EF, 0x00),
    (0x3030, 0x00), (0x3069, 0x02), (0x3074, 0x63), (0x3081, 0x02), (0x30D5, 0x02), (0x3930, 0xE6),
    (0x3931, 0x00), (0x3A4C, 0x61), (0x3A4D, 0x02), (0x3A50, 0x70), (0x3A51, 0x02), (0x3E10, 0x17),
    (0x493C, 0x41), (0x4940, 0x41)]"

record v4l2_rect =
  rect_left :: s32
  rect_top :: s32
  rect_width :: u32
  rect_height :: u32

text \<open>\<open>struct imx586_mode\<close>; the field \<open>linear\<close> of the source is \<open>linear_out\<close>
  here.\<close>

record imx586_mode =
  width :: u32
  height :: u32
  hdr :: bool
  linear_out :: bool
  min_HMAX :: u64
  min_VMAX :: u64
  default_HMAX :: u64
  default_VMAX :: u64
  min_SHR :: u64
  crop :: v4l2_rect
  reg_list :: "imx586_reg list"

definition pixel_array_crop :: v4l2_rect where
  "pixel_array_crop = \<lparr>rect_left = ucast IMX586_PIXEL_ARRAY_LEFT,
     rect_top = ucast IMX586_PIXEL_ARRAY_TOP,
     rect_width = IMX586_PIXEL_ARRAY_WIDTH, rect_height = IMX586_PIXEL_ARRAY_HEIGHT\<rparr>"

definition supported_modes_12bit :: "imx586_mode list" where
  "supported_modes_12bit = [
     \<lparr>width = 3856, height = 2180, hdr = False, linear_out = True,
      min_HMAX = 550, min_VMAX = 2250, default_HMAX = 550, default_VMAX = 2250,
      min_SHR = 20, crop = pixel_array_crop, reg_list = mode_4k_regs\<rparr>,
     \<lparr>width = 1928, height = 1090, hdr = False, linear_out = True,
      min_HMAX = 366, min_VMAX = 2250, default_HMAX = 366, default_VMAX = 2250,
      min_SHR = 20, crop = pixel_array_crop, reg_list = mode_1080_regs\<rparr>]"

definition supported_modes_nonlinear_12bit :: "imx586_mode list" where
  "supported_modes_nonlinear_12bit = [
     \<lparr>width = 3856, height = 2180, hdr = True, linear_out = False,
      min_HMAX = 550, min_VMAX = 4500, default_HMAX = 550, default_VMAX = 4500,
      min_SHR = 20, crop = pixel_array_crop, reg_list = mode_4k_nonlinear_regs\<rparr>]"

definition supported_modes_16bit :: "imx586_mode list" where
  "supported_modes_16bit = [
     \<lparr>width = 1928, height = 1090, hdr = True, linear_out = True,
      min_HMAX = 550, min_VMAX = 4500, default_HMAX = 550, default_VMAX = 4500,
      min_SHR = 20, crop = pixel_array_crop, reg_list = mode_1080_16bit_regs\<rparr>,
     \<lparr>width = 3856, height = 2180, hdr = True, linear_out = True,
      min_HMAX = 550, min_VMAX = 4500, default_HMAX = 550, default_VMAX = 4500,
      min_SHR = 20, crop = pixel_array_crop, reg_list = mode_4k_16bit_regs\<rparr>]"

text \<open>The supported formats: four entries per format for a colour sensor, one per format
  for a monochrome one.\<close>

definition codes :: "u32 list" where
  "codes = [
     MEDIA_BUS_FMT_SRGGB16_1X16, MEDIA_BUS_FMT_SGRBG16_1X16,
     MEDIA_BUS_FMT_SGBRG16_1X16, MEDIA_BUS_FMT_SBGGR16_1X16,
     MEDIA_BUS_FMT_SRGGB12_1X12, MEDIA_BUS_FMT_SGRBG12_1X12,
     MEDIA_BUS_FMT_SGBRG12_1X12, MEDIA_BUS_FMT_SBGGR12_1X12]"

definition mono_codes :: "u32 list" where
  "mono_codes = [MEDIA_BUS_FMT_Y16_1X16, MEDIA_BUS_FMT_Y12_1X12]"

text \<open>The mode catalog: the three tables together.\<close>

definition mode_catalog :: "imx586_mode list" where
  "mode_catalog = supported_modes_12bit @ supported_modes_nonlinear_12bit @ supported_modes_16bit"


section \<open>Timing calculator\<close>

text \<open>\<open>do_div(n, base)\<close> of the kernel (asm-generic/div64.h): the divisor is taken as a
  32-bit value and \<open>n\<close> is replaced by the quotient. A zero divisor traps.\<close>

definition do_div :: "u64 \<Rightarrow> u64 \<Rightarrow> fault + u64" where
  "do_div n base =
     (let b = (ucast base :: u32) in if b = 0 then Inl DivByZero else Inr (n div ucast b))"

text \<open>\<open>clamp_t(uint32_t, val, lo, hi)\<close>: the three operands are cast to 32 bits first.\<close>

definition clamp_t_u32 :: "u64 \<Rightarrow> u64 \<Rightarrow> u64 \<Rightarrow> u32" where
  "clamp_t_u32 v lo hi = min (max (ucast v) (ucast lo)) (ucast hi)"

definition calculate_v4l2_cid_exposure :: "u64 \<Rightarrow> u64 \<Rightarrow> u64 \<Rightarrow> u64 \<Rightarrow> u64 \<Rightarrow> fault + u64" where
  "calculate_v4l2_cid_exposure hmax vmax shr svr offset =
     bindF (do_div ((vmax * (svr + 1) - shr) * hmax + offset) hmax)
       (\<lambda>numerator. Inr (ucast (clamp_t_u32 numerator 0 0xFFFFFFFF)))"

definition calculate_min_max_v4l2_cid_exposure ::
  "u64 \<Rightarrow> u64 \<Rightarrow> u64 \<Rightarrow> u64 \<Rightarrow> u64 \<Rightarrow> fault + (u64 \<times> u64)" where
  "calculate_min_max_v4l2_cid_exposure hmax vmax min_shr svr offset =
     (let max_shr = (svr + 1) * vmax - 4;
          max_shr = min max_shr 0xFFFF
      in bindF (calculate_v4l2_cid_exposure hmax vmax max_shr svr offset) (\<lambda>min_exposure.
         bindF (calculate_v4l2_cid_exposure hmax vmax min_shr svr offset) (\<lambda>max_exposure.
         Inr (min_exposure, max_exposure))))"

definition calculate_shr :: "u32 \<Rightarrow> u32 \<Rightarrow> u64 \<Rightarrow> u32 \<Rightarrow> u32 \<Rightarrow> fault + u32" where
  "calculate_shr exposure hmax vmax svr offset =
     bindF (do_div (ucast exposure * ucast hmax - ucast offset) (ucast hmax))
       (\<lambda>temp. Inr (ucast (vmax * ucast (svr + 1) - temp)))"

section \<open>Device state\<close>

text \<open>A control of the V4L2 control framework, as far as the driver reads and sets it: the
  range last given to the framework, the current value, and the grabbed flag.\<close>

record v4l2_ctrl =
  minimum :: s64
  maximum :: s64
  step :: u64
  default_value :: s64
  val :: s32
  grabbed :: bool

text \<open>\<open>struct imx586\<close>. The gain control is created without a field of its own and lives
  in the control handler; here it is \<open>analogue_gain\<close>. The field \<open>mono\<close> of the source is
  \<open>mono_dev\<close>. The last three fields are the environment: the usage counter of runtime power
  management, the results of the coming I2C transfers (\<open>None\<close>: all bytes were sent,
  \<open>Some r\<close>: \<open>i2c_master_send\<close> returns \<open>r\<close>; after the end of the list every transfer
  succeeds), and the messages given to the bus so far, each with the result of its
  transfer, the newest first.\<close>

record imx586 =
  fmt_code :: u32
  pixel_rate :: v4l2_ctrl
  exposure :: v4l2_ctrl
  vflip :: v4l2_ctrl
  hflip :: v4l2_ctrl
  vblank :: v4l2_ctrl
  hblank :: v4l2_ctrl
  analogue_gain :: v4l2_ctrl
  mode :: imx586_mode
  mono_dev :: bool
  HMAX :: u16
  VMAX :: u32
  streaming :: bool
  common_regs_written :: bool
  pm_usage :: nat
  i2c_script :: "int option list"
  i2c_log :: "(u8 list \<times> int) list"

subsection \<open>Calls into the kernel\<close>

fun i2c_result :: "int option list \<Rightarrow> nat \<Rightarrow> int" where
  "i2c_result [] count = int count"
| "i2c_result (None # rs) count = int count"
| "i2c_result (Some e # rs) count = e"

definition i2c_master_send :: "u8 list \<Rightarrow> imx586 \<Rightarrow> int \<times> imx586" where
  "i2c_master_send buf st =
     (let ret = i2c_result (i2c_script st) (length buf)
      in (ret, st\<lparr>i2c_script := tl (i2c_script st), i2c_log := (buf, ret) # i2c_log st\<rparr>))"

definition put_unaligned_be16 :: "u16 \<Rightarrow> u8 list" where
  "put_unaligned_be16 reg = [ucast (drop_bit 8 reg), ucast reg]"

text \<open>\<open>pm_runtime_get_if_in_use\<close> takes a reference only when the device is in use.
  \<open>pm_runtime_get_sync\<close> takes a reference and resumes the device; the result of the resume
  is an input, \<open>pm_ret\<close>.\<close>

definition pm_runtime_get_if_in_use :: "imx586 \<Rightarrow> int \<times> imx586" where
  "pm_runtime_get_if_in_use st =
     (if 0 < pm_usage st then (1, st\<lparr>pm_usage := pm_usage st + 1\<rparr>) else (0, st))"

definition pm_runtime_get_sync :: "int \<Rightarrow> imx586 \<Rightarrow> int \<times> imx586" where
  "pm_runtime_get_sync pm_ret st = (pm_ret, st\<lparr>pm_usage := pm_usage st + 1\<rparr>)"

definition pm_runtime_put :: "imx586 \<Rightarrow> imx586" where
  "pm_runtime_put st = st\<lparr>pm_usage := pm_usage st - 1\<rparr>"

text \<open>\<open>__v4l2_ctrl_modify_range\<close> and \<open>__v4l2_ctrl_grab\<close> belong to the control
  framework. The model keeps what the driver hands over: the new range with the new default
  value, and the flag. What the framework does with them afterwards (the check of the new
  range, the validation of the current value against it) is not part of the model.\<close>

definition v4l2_ctrl_modify_range :: "v4l2_ctrl \<Rightarrow> s64 \<Rightarrow> s64 \<Rightarrow> u64 \<Rightarrow> s64 \<Rightarrow> v4l2_ctrl" where
  "v4l2_ctrl_modify_range c mn mx stp def =
     c\<lparr>minimum := mn, maximum := mx, step := stp, default_value := def\<rparr>"

definition v4l2_ctrl_grab :: "v4l2_ctrl \<Rightarrow> bool \<Rightarrow> v4l2_ctrl" where
  "v4l2_ctrl_grab c g = c\<lparr>grabbed := g\<rparr>"

text \<open>\<open>v4l2_ctrl_new_std\<close>: a new control starts at its default value.\<close>

definition v4l2_ctrl_new_std :: "s64 \<Rightarrow> s64 \<Rightarrow> u64 \<Rightarrow> s64 \<Rightarrow> v4l2_ctrl" where
  "v4l2_ctrl_new_std mn mx stp def =
     \<lparr>minimum = mn, maximum = mx, step = stp, default_value = def, val = ucast def,
      grabbed = False\<rparr>"

fun ctrl_of :: "ctrl_id \<Rightarrow> imx586 \<Rightarrow> v4l2_ctrl option" where
  "ctrl_of V4L2_CID_PIXEL_RATE st = Some (pixel_rate st)"
| "ctrl_of V4L2_CID_VBLANK st = Some (vblank st)"
| "ctrl_of V4L2_CID_HBLANK st = Some (hblank st)"
| "ctrl_of V4L2_CID_EXPOSURE st = Some (exposure st)"
| "ctrl_of V4L2_CID_ANALOGUE_GAIN st = Some (analogue_gain st)"
| "ctrl_of V4L2_CID_HFLIP st = Some (hflip st)"
| "ctrl_of V4L2_CID_VFLIP st = Some (vflip st)"
| "ctrl_of (V4L2_CID_OTHER n) st = None"

fun ctrl_store_val :: "ctrl_id \<Rightarrow> s32 \<Rightarrow> imx586 \<Rightarrow> imx586" where
  "ctrl_store_val V4L2_CID_PIXEL_RATE v st = st\<lparr>pixel_rate := (pixel_rate st)\<lparr>val := v\<rparr>\<rparr>"
| "ctrl_store_val V4L2_CID_VBLANK v st = st\<lparr>vblank := (vblank st)\<lparr>val := v\<rparr>\<rparr>"
| "ctrl_store_val V4L2_CID_HBLANK v st = st\<lparr>hblank := (hblank st)\<lparr>val := v\<rparr>\<rparr>"
| "ctrl_store_val V4L2_CID_EXPOSURE v st = st\<lparr>exposure := (exposure st)\<lparr>val := v\<rparr>\<rparr>"
| "ctrl_store_val V4L2_CID_ANALOGUE_GAIN v st =
     st\<lparr>analogue_gain := (analogue_gain st)\<lparr>val := v\<rparr>\<rparr>"
| "ctrl_store_val V4L2_CID_HFLIP v st = st\<lparr>hflip := (hflip st)\<lparr>val := v\<rparr>\<rparr>"
| "ctrl_store_val V4L2_CID_VFLIP v st = st\<lparr>vflip := (vflip st)\<lparr>val := v\<rparr>\<rparr>"
| "ctrl_store_val (V4L2_CID_OTHER n) v st = st"

section \<open>Register access\<close>

definition imx586_write_reg_1byte :: "u16 \<Rightarrow> u8 \<Rightarrow> imx586 \<Rightarrow> int \<times> imx586" where
  "imx586_write_reg_1byte reg v st =
     (let (ret, st') = i2c_master_send (put_unaligned_be16 reg @ [v]) st
      in if ret \<noteq> 3 then (ret, st') else (0, st'))"

definition imx586_write_reg_2byte :: "u16 \<Rightarrow> u16 \<Rightarrow> imx586 \<Rightarrow> int \<times> imx586" where
  "imx586_write_reg_2byte reg v st =
     (let (ret, st') =
            i2c_master_send (put_unaligned_be16 reg @ [ucast v, ucast (drop_bit 8 v)]) st
      in if ret \<noteq> 4 then (ret, st') else (0, st'))"

definition imx586_write_reg_3byte :: "u16 \<Rightarrow> u32 \<Rightarrow> imx586 \<Rightarrow> int \<times> imx586" where
  "imx586_write_reg_3byte reg v st =
     (let (ret, st') =
            i2c_master_send
              (put_unaligned_be16 reg @ [ucast v, ucast (drop_bit 8 v), ucast (drop_bit 16 v)]) st
      in if ret \<noteq> 5 then (- EIO, st') else (0, st'))"

fun imx586_write_regs :: "imx586_reg list \<Rightarrow> imx586 \<Rightarrow> int \<times> imx586" where
  "imx586_write_regs [] st = (0, st)"
| "imx586_write_regs ((address, v) # regs) st =
     (let (ret, st') = imx586_write_reg_1byte address v st
      in if ret \<noteq> 0 then (ret, st') else imx586_write_regs regs st')"

definition imx586_register_hold :: "bool \<Rightarrow> imx586 \<Rightarrow> imx586" where
  "imx586_register_hold hold st = snd (imx586_write_reg_1byte 0x3001 (if hold then 1 else 0) st)"

section \<open>Format resolver\<close>

text \<open>The search loop of \<open>imx586_get_format_code\<close>: the index of the first entry equal to
  the code, or the length of the table when there is none.\<close>

fun code_index :: "u32 list \<Rightarrow> u32 \<Rightarrow> nat" where
  "code_index [] code = 0"
| "code_index (c # cs) code = (if c = code then 0 else Suc (code_index cs code))"

definition imx586_get_format_code :: "imx586 \<Rightarrow> u32 \<Rightarrow> fault + u32" where
  "imx586_get_format_code st code =
     (let table = (if mono_dev st then mono_codes else codes);
          i = code_index table code
      in if i < length table then Inr (table ! i) else Inl (OutOfBounds i))"

definition get_mode_table :: "imx586 \<Rightarrow> u32 \<Rightarrow> v4l2_xfer_func \<Rightarrow> imx586_mode list" where
  "get_mode_table st code transfer_function =
     (if mono_dev st then
        (if code = MEDIA_BUS_FMT_Y16_1X16 then supported_modes_16bit
         else if code = MEDIA_BUS_FMT_Y12_1X12 then
           (if transfer_function = V4L2_XFER_FUNC_GRADATION_COMPRESSION
            then supported_modes_nonlinear_12bit else supported_modes_12bit)
         else [])
      else
        (if code \<in> {MEDIA_BUS_FMT_SRGGB16_1X16, MEDIA_BUS_FMT_SGRBG16_1X16,
                     MEDIA_BUS_FMT_SGBRG16_1X16, MEDIA_BUS_FMT_SBGGR16_1X16}
         then supported_modes_16bit
         else if code \<in> {MEDIA_BUS_FMT_SRGGB12_1X12, MEDIA_BUS_FMT_SGRBG12_1X12,
                          MEDIA_BUS_FMT_SGBRG12_1X12, MEDIA_BUS_FMT_SBGGR12_1X12}
         then (if transfer_function = V4L2_XFER_FUNC_GRADATION_COMPRESSION
               then supported_modes_nonlinear_12bit else supported_modes_12bit)
         else []))"

definition imx586_set_default_format :: "imx586 \<Rightarrow> imx586" where
  "imx586_set_default_format st =
     st\<lparr>mode := supported_modes_12bit ! 0,
        fmt_code := (if mono_dev st then MEDIA_BUS_FMT_Y12_1X12 else MEDIA_BUS_FMT_SRGGB12_1X12)\<rparr>"



section \<open>Controls\<close>

text \<open>The \<open>switch\<close> of \<open>imx586_set_ctrl\<close>, reached only while the device is in use.\<close>

definition imx586_set_ctrl_switch :: "ctrl_id \<Rightarrow> s32 \<Rightarrow> imx586 \<Rightarrow> fault + (int \<times> imx586)" where
  "imx586_set_ctrl_switch cid v st =
     (let m = mode st in
      case cid of
        V4L2_CID_EXPOSURE \<Rightarrow>
          bindF (calculate_shr v (ucast (HMAX st)) (ucast (VMAX st)) 0 209)
            (\<lambda>shr. Inr (imx586_write_reg_2byte IMX586_REG_SHR (ucast shr) st))
      | V4L2_CID_ANALOGUE_GAIN \<Rightarrow>
          (let gain = sint v;
               useHGC = (\<not> hdr m \<and> gain \<ge> IMX586_ANA_GAIN_HCG_THRESHOLD);
               gain = (if useHGC
                       then (if gain - IMX586_ANA_GAIN_HCG_LEVEL < IMX586_ANA_GAIN_HCG_MIN
                             then IMX586_ANA_GAIN_HCG_MIN
                             else gain - IMX586_ANA_GAIN_HCG_LEVEL)
                       else gain);
               st1 = imx586_register_hold True st;
               (ret, st2) = imx586_write_reg_2byte IMX586_REG_ANALOG_GAIN (word_of_int gain) st1;
               (ret, st3) = imx586_write_reg_1byte IMX586_REG_FDG_SEL0 (if useHGC then 1 else 0) st2;
               st4 = imx586_register_hold False st3
           in Inr (ret, st4))
      | V4L2_CID_VBLANK \<Rightarrow>
          (let st1 = st\<lparr>VMAX := ucast ((ucast (height m) :: u64) + scast v)\<rparr>
           in Inr (imx586_write_reg_3byte IMX586_REG_VMAX (VMAX st1) st1))
      | V4L2_CID_HBLANK \<Rightarrow>
          bindF (do_div (ucast (width m) * IMX586_PIXEL_RATE) (min_HMAX m)) (\<lambda>pixel_rate.
          bindF (do_div (ucast (width m + v) * IMX586_PIXEL_RATE) pixel_rate) (\<lambda>hmax.
            let st1 = st\<lparr>HMAX := ucast hmax\<rparr>
            in Inr (imx586_write_reg_2byte IMX586_REG_HMAX (ucast hmax) st1)))
      | V4L2_CID_HFLIP \<Rightarrow> Inr (imx586_write_reg_1byte IMX586_FLIP_WINMODEH (ucast v) st)
      | V4L2_CID_VFLIP \<Rightarrow> Inr (imx586_write_reg_1byte IMX586_FLIP_WINMODEV (ucast v) st)
      | _ \<Rightarrow> Inr (0, st))"

text \<open>\<open>imx586_set_ctrl\<close>. The local variable \<open>current_exposure\<close> is read before anything
  is stored in it; the value found there is the input \<open>uninit\<close>.\<close>

definition imx586_set_ctrl :: "u64 \<Rightarrow> ctrl_id \<Rightarrow> s32 \<Rightarrow> imx586 \<Rightarrow> fault + (int \<times> imx586)" where
  "imx586_set_ctrl uninit cid v st =
     bindF
       (if cid = V4L2_CID_VBLANK then
          (let vmax = (ucast (height (mode st)) :: u64) + scast v;
               st1 = st\<lparr>VMAX := ucast vmax\<rparr>
           in bindF (calculate_min_max_v4l2_cid_exposure (ucast (HMAX st1)) (ucast (VMAX st1))
                       (min_SHR (mode st)) 0 209)
                (\<lambda>(min_exposure, max_exposure).
                   let current_exposure = (ucast (clamp_t_u32 uninit min_exposure max_exposure) :: u64)
                   in Inr (st1\<lparr>exposure := v4l2_ctrl_modify_range (exposure st1)
                                   min_exposure max_exposure 1 current_exposure\<rparr>)))
        else Inr st)
       (\<lambda>st2. let (in_use, st3) = pm_runtime_get_if_in_use st2
              in if in_use = 0 then Inr (0, st2)
                 else bindF (imx586_set_ctrl_switch cid v st3)
                        (\<lambda>(ret, st4). Inr (ret, pm_runtime_put st4)))"

text \<open>\<open>__v4l2_ctrl_s_ctrl\<close> belongs to the control framework of the kernel
  (v4l2-ctrls-api.c, v4l2-ctrls-core.c), which is not part of the repository; the model
  follows \<open>set_ctrl\<close> and \<open>try_or_set_cluster\<close> there. The new value is validated first:
  for an integer control of step 1, as the blanking controls are, it is clamped into the
  range of the control, with \<open>clamp_t(s32, ...)\<close>. A grabbed control refuses with
  \<open>-EBUSY\<close>. When the validated value is the current one the handler is not called. Else
  the handler is called with the validated value, which becomes the current one when the
  handler reports success.\<close>

definition clamp_t_s32 :: "s32 \<Rightarrow> s64 \<Rightarrow> s64 \<Rightarrow> s32" where
  "clamp_t_s32 v lo hi =
     (let l = (ucast lo :: s32); h = (ucast hi :: s32);
          m = (if sint v < sint l then l else v)
      in if sint h < sint m then h else m)"

definition v4l2_ctrl_s_ctrl :: "u64 \<Rightarrow> ctrl_id \<Rightarrow> s32 \<Rightarrow> imx586 \<Rightarrow> fault + (int \<times> imx586)" where
  "v4l2_ctrl_s_ctrl uninit cid v st =
     (case ctrl_of cid st of
        None \<Rightarrow> Inl NullDeref
      | Some c \<Rightarrow>
          (let v' = clamp_t_s32 v (minimum c) (maximum c)
           in if grabbed c then Inr (- EBUSY, st)
              else if v' = val c then Inr (0, st)
              else bindF (imx586_set_ctrl uninit cid v' st)
                     (\<lambda>(ret, st'). Inr (ret, if ret = 0 then ctrl_store_val cid v' st'
                                               else st'))))"

text \<open>\<open>__v4l2_ctrl_handler_setup\<close> of the control framework: the handler is called for every
  control that is not read-only, in the order of creation, with the control's current value;
  the first failure ends the loop.\<close>

fun ctrl_setup_loop :: "u64 \<Rightarrow> ctrl_id list \<Rightarrow> imx586 \<Rightarrow> fault + (int \<times> imx586)" where
  "ctrl_setup_loop uninit [] st = Inr (0, st)"
| "ctrl_setup_loop uninit (cid # cids) st =
     (case ctrl_of cid st of
        None \<Rightarrow> ctrl_setup_loop uninit cids st
      | Some c \<Rightarrow>
          bindF (imx586_set_ctrl uninit cid (val c) st)
            (\<lambda>(ret, st'). if ret \<noteq> 0 then Inr (ret, st') else ctrl_setup_loop uninit cids st'))"

definition v4l2_ctrl_handler_setup :: "u64 \<Rightarrow> imx586 \<Rightarrow> fault + (int \<times> imx586)" where
  "v4l2_ctrl_handler_setup uninit st =
     ctrl_setup_loop uninit
       [V4L2_CID_VBLANK, V4L2_CID_HBLANK, V4L2_CID_EXPOSURE, V4L2_CID_ANALOGUE_GAIN,
        V4L2_CID_HFLIP, V4L2_CID_VFLIP] st"

definition imx586_set_framing_limits :: "u64 \<Rightarrow> imx586 \<Rightarrow> fault + imx586" where
  "imx586_set_framing_limits uninit st =
     (let m = mode st;
          st1 = st\<lparr>VMAX := ucast (default_VMAX m), HMAX := ucast (default_HMAX m)\<rparr>
      in bindF (do_div (ucast (width m) * IMX586_PIXEL_RATE) (min_HMAX m)) (\<lambda>pixel_rate'.
         bindF (do_div (default_HMAX m * pixel_rate') IMX586_PIXEL_RATE) (\<lambda>q.
           let def_hblank = q - ucast (width m);
               st2 = st1\<lparr>hblank := v4l2_ctrl_modify_range (hblank st1) 0 IMX586_HMAX_MAX 1 def_hblank\<rparr>
           in bindF (v4l2_ctrl_s_ctrl uninit V4L2_CID_HBLANK (ucast def_hblank) st2) (\<lambda>(r, st3).
              let st4 = st3\<lparr>vblank := v4l2_ctrl_modify_range (vblank st3)
                                   (min_VMAX m - ucast (height m))
                                   (ucast (IMX586_VMAX_MAX - height m)) 1
                                   (default_VMAX m - ucast (height m))\<rparr>
              in bindF (v4l2_ctrl_s_ctrl uninit V4L2_CID_VBLANK
                          (ucast (default_VMAX m - ucast (height m))) st4) (\<lambda>(r, st5).
                 Inr (st5\<lparr>pixel_rate := v4l2_ctrl_modify_range (pixel_rate st5)
                            pixel_rate' pixel_rate' 1 pixel_rate'\<rparr>))))))"

text \<open>\<open>imx586_init_controls\<close>: the controls are created, then the limits of the mode are
  set. The failures of the framework's own calls are left out.\<close>

definition imx586_init_controls :: "u64 \<Rightarrow> imx586 \<Rightarrow> fault + imx586" where
  "imx586_init_controls uninit st =
     imx586_set_framing_limits uninit
       (st\<lparr>pixel_rate := v4l2_ctrl_new_std 0xffff 0xffff 1 0xffff,
           vblank := v4l2_ctrl_new_std 0 0xfffff 1 0,
           hblank := v4l2_ctrl_new_std 0 0xffff 1 0,
           exposure := v4l2_ctrl_new_std IMX586_EXPOSURE_MIN IMX586_EXPOSURE_MAX
                         IMX586_EXPOSURE_STEP IMX586_EXPOSURE_DEFAULT,
           analogue_gain := v4l2_ctrl_new_std IMX586_ANA_GAIN_MIN IMX586_ANA_GAIN_MAX
                              IMX586_ANA_GAIN_STEP IMX586_ANA_GAIN_DEFAULT,
           hflip := v4l2_ctrl_new_std 0 1 1 0,
           vflip := v4l2_ctrl_new_std 0 1 1 0\<rparr>)"

text \<open>The device after \<open>imx586_probe\<close>: the zeroed structure with the \<open>mono\<close> flag of the
  device tree, the default format, the controls. The fields that the allocation leaves
  null (the mode, the controls) are written before they are read; the clock, the regulators,
  the chip identification and the registration with the media framework are left out. The
  device is idle afterwards, so the usage counter is zero. \<open>script\<close> is what the bus will
  answer from then on.\<close>

definition imx586_alloc :: "bool \<Rightarrow> int option list \<Rightarrow> imx586" where
  "imx586_alloc mono_mode script =
     (let c = v4l2_ctrl_new_std 0 0 0 0
      in \<lparr>fmt_code = 0, pixel_rate = c, exposure = c, vflip = c, hflip = c, vblank = c,
          hblank = c, analogue_gain = c, mode = supported_modes_12bit ! 0,
          mono_dev = mono_mode, HMAX = 0, VMAX = 0, streaming = False,
          common_regs_written = False, pm_usage = 0, i2c_script = script, i2c_log = []\<rparr>)"

definition imx586_probe :: "u64 \<Rightarrow> bool \<Rightarrow> int option list \<Rightarrow> fault + imx586" where
  "imx586_probe uninit mono_mode script =
     imx586_init_controls uninit (imx586_set_default_format (imx586_alloc mono_mode script))"

section \<open>Pad formats\<close>

record v4l2_mbus_framefmt =
  fmt_width :: u32
  fmt_height :: u32
  code :: u32
  field :: v4l2_field
  colorspace :: v4l2_colorspace
  ycbcr_enc :: v4l2_ycbcr_encoding
  quantization :: v4l2_quantization
  xfer_func :: v4l2_xfer_func

record v4l2_subdev_format =
  which :: v4l2_subdev_format_whence
  pad :: nat
  format :: v4l2_mbus_framefmt

text \<open>The try formats of a file handle, one for each pad.\<close>

record v4l2_subdev_state =
  try_fmt_image :: v4l2_mbus_framefmt
  try_fmt_metadata :: v4l2_mbus_framefmt

record v4l2_subdev_frame_size_enum =
  fse_index :: nat
  fse_pad :: nat
  fse_code :: u32
  min_width :: u32
  max_width :: u32
  min_height :: u32
  max_height :: u32

definition set_try_format :: "nat \<Rightarrow> v4l2_mbus_framefmt \<Rightarrow> v4l2_subdev_state \<Rightarrow> v4l2_subdev_state" where
  "set_try_format p f sd_state =
     (if p = IMAGE_PAD then sd_state\<lparr>try_fmt_image := f\<rparr> else sd_state\<lparr>try_fmt_metadata := f\<rparr>)"

text \<open>The macros \<open>V4L2_MAP_YCBCR_ENC_DEFAULT\<close>, \<open>V4L2_MAP_QUANTIZATION_DEFAULT\<close> and
  \<open>V4L2_MAP_XFER_FUNC_DEFAULT\<close> at the raw colour space.\<close>

definition imx586_reset_colorspace :: "imx586_mode \<Rightarrow> v4l2_mbus_framefmt \<Rightarrow> v4l2_mbus_framefmt" where
  "imx586_reset_colorspace m fmt =
     fmt\<lparr>colorspace := V4L2_COLORSPACE_RAW, ycbcr_enc := V4L2_YCBCR_ENC_601,
         quantization := V4L2_QUANTIZATION_FULL_RANGE,
         xfer_func := (if linear_out m then V4L2_XFER_FUNC_NONE
                       else V4L2_XFER_FUNC_GRADATION_COMPRESSION)\<rparr>"

definition imx586_update_image_pad_format :: "imx586_mode \<Rightarrow> v4l2_subdev_format \<Rightarrow> v4l2_subdev_format" where
  "imx586_update_image_pad_format m fmt =
     fmt\<lparr>format := imx586_reset_colorspace m
          ((format fmt)\<lparr>fmt_width := width m, fmt_height := height m, field := V4L2_FIELD_NONE\<rparr>)\<rparr>"

definition imx586_update_metadata_pad_format :: "v4l2_subdev_format \<Rightarrow> v4l2_subdev_format" where
  "imx586_update_metadata_pad_format fmt =
     fmt\<lparr>format := (format fmt)\<lparr>fmt_width := IMX586_EMBEDDED_LINE_WIDTH,
          fmt_height := IMX586_NUM_EMBEDDED_LINES, code := MEDIA_BUS_FMT_SENSOR_DATA,
          field := V4L2_FIELD_NONE\<rparr>\<rparr>"

text \<open>Modelled from the spec: \<open>v4l2_find_nearest_size\<close> is a helper of the V4L2 core and is
  not part of the driver. It returns the mode nearest to the requested width and height,
  the first one of the table when several are equally near, and a null pointer for an empty
  table.\<close>

definition size_error :: "imx586_mode \<Rightarrow> u32 \<Rightarrow> u32 \<Rightarrow> nat" where
  "size_error m w h =
     nat \<bar>int (unat (width m)) - int (unat w)\<bar> + nat \<bar>int (unat (height m)) - int (unat h)\<bar>"

fun v4l2_find_nearest_size :: "imx586_mode list \<Rightarrow> u32 \<Rightarrow> u32 \<Rightarrow> imx586_mode option" where
  "v4l2_find_nearest_size [] w h = None"
| "v4l2_find_nearest_size (m # ms) w h =
     (case v4l2_find_nearest_size ms w h of
        None \<Rightarrow> Some m
      | Some b \<Rightarrow> if size_error m w h \<le> size_error b w h then Some m else Some b)"

definition imx586_set_pad_format ::
  "u64 \<Rightarrow> imx586 \<Rightarrow> v4l2_subdev_state \<Rightarrow> v4l2_subdev_format \<Rightarrow>
   fault + (int \<times> imx586 \<times> v4l2_subdev_state \<times> v4l2_subdev_format)" where
  "imx586_set_pad_format uninit st sd_state fmt =
     (if pad fmt \<ge> NUM_PADS then Inr (- EINVAL, st, sd_state, fmt)
      else if pad fmt = IMAGE_PAD then
        bindF (imx586_get_format_code st (code (format fmt))) (\<lambda>c.
          let fmt1 = fmt\<lparr>format := (format fmt)\<lparr>code := c\<rparr>\<rparr>;
              mode_list = get_mode_table st c (xfer_func (format fmt1))
          in case v4l2_find_nearest_size mode_list (fmt_width (format fmt1))
                    (fmt_height (format fmt1)) of
               None \<Rightarrow> Inl NullDeref
             | Some m \<Rightarrow>
                 (let fmt2 = imx586_update_image_pad_format m fmt1
                  in if which fmt2 = V4L2_SUBDEV_FORMAT_TRY
                     then Inr (0, st, set_try_format (pad fmt2) (format fmt2) sd_state, fmt2)
                     else if mode st \<noteq> m
                     then bindF (imx586_set_framing_limits uninit
                                   (st\<lparr>mode := m, fmt_code := code (format fmt2)\<rparr>))
                            (\<lambda>st'. Inr (0, st', sd_state, fmt2))
                     else Inr (0, st, sd_state, fmt2)))
      else if which fmt = V4L2_SUBDEV_FORMAT_TRY
      then Inr (0, st, set_try_format (pad fmt) (format fmt) sd_state, fmt)
      else Inr (0, st, sd_state, imx586_update_metadata_pad_format fmt))"

definition imx586_enum_frame_size ::
  "imx586 \<Rightarrow> v4l2_subdev_frame_size_enum \<Rightarrow> fault + (int \<times> v4l2_subdev_frame_size_enum)" where
  "imx586_enum_frame_size st fse =
     (if fse_pad fse \<ge> NUM_PADS then Inr (- EINVAL, fse)
      else if fse_pad fse = IMAGE_PAD then
        (let mode_list = get_mode_table st (fse_code fse) V4L2_XFER_FUNC_DEFAULT
         in if fse_index fse \<ge> length mode_list then Inr (- EINVAL, fse)
            else bindF (imx586_get_format_code st (fse_code fse)) (\<lambda>c.
                   if fse_code fse \<noteq> c then Inr (- EINVAL, fse)
                   else Inr (0, fse\<lparr>min_width := width (mode_list ! fse_index fse),
                                    max_width := width (mode_list ! fse_index fse),
                                    min_height := height (mode_list ! fse_index fse),
                                    max_height := height (mode_list ! fse_index fse)\<rparr>)))
      else if fse_code fse \<noteq> MEDIA_BUS_FMT_SENSOR_DATA then Inr (- EINVAL, fse)
      else if fse_index fse > 0 then Inr (- EINVAL, fse)
      else Inr (0, fse\<lparr>min_width := IMX586_EMBEDDED_LINE_WIDTH,
                       max_width := IMX586_EMBEDDED_LINE_WIDTH,
                       min_height := IMX586_NUM_EMBEDDED_LINES,
                       max_height := IMX586_NUM_EMBEDDED_LINES\<rparr>))"

section \<open>Streaming sequencer\<close>

text \<open>\<open>imx586_start_streaming\<close>. The results of the writes of the black level, of the
  compression curve, of the HDR thresholds and of the digital clamp are dropped, as in the
  source. The delay after the last write is left out.\<close>

definition write_ccmp :: "imx586 \<Rightarrow> imx586" where
  "write_ccmp st =
     (if \<not> linear_out (mode st) then
        (let st = snd (imx586_write_reg_3byte IMX586_REG_CCMP1_EXP 500 st);
             st = snd (imx586_write_reg_1byte IMX586_REG_ACMP1_EXP 0x2 st);
             st = snd (imx586_write_reg_3byte IMX586_REG_CCMP2_EXP 11500 st)
         in snd (imx586_write_reg_1byte IMX586_REG_ACMP2_EXP 0x6 st))
      else
        (let st = snd (imx586_write_reg_3byte IMX586_REG_CCMP1_EXP 0 st);
             st = snd (imx586_write_reg_1byte IMX586_REG_ACMP1_EXP 0 st);
             st = snd (imx586_write_reg_3byte IMX586_REG_CCMP2_EXP 0 st)
         in snd (imx586_write_reg_1byte IMX586_REG_ACMP2_EXP 0 st)))"

definition write_hdr :: "imx586 \<Rightarrow> imx586" where
  "write_hdr st =
     (if hdr (mode st) then
        (let st = snd (imx586_write_reg_2byte IMX586_REG_EXP_TH_H 4095 st);
             st = snd (imx586_write_reg_2byte IMX586_REG_EXP_TH_L 512 st)
         in snd (imx586_write_reg_1byte IMX586_REG_EXP_BK 0 st))
      else st)"

definition write_common :: "imx586 \<Rightarrow> int \<times> imx586" where
  "write_common st =
     (if \<not> common_regs_written st then
        (let (ret, st1) = imx586_write_regs mode_common_regs st
         in if ret \<noteq> 0 then (ret, st1)
            else (0, (snd (imx586_write_reg_2byte IMX586_REG_BLKLEVEL IMX586_BLKLEVEL_DEFAULT st1))
                       \<lparr>common_regs_written := True\<rparr>))
      else (0, st))"

definition imx586_start_streaming :: "u64 \<Rightarrow> imx586 \<Rightarrow> fault + (int \<times> imx586)" where
  "imx586_start_streaming uninit st =
     (let (ret, st1) = write_common st
      in if ret \<noteq> 0 then Inr (ret, st1)
         else
           (let (ret, st2) = imx586_write_regs (reg_list (mode st1)) st1
            in if ret \<noteq> 0 then Inr (ret, st2)
               else
                 (let st3 = write_ccmp st2;
                      st4 = write_hdr st3;
                      st5 = snd (imx586_write_reg_1byte IMX586_REG_DIGITAL_CLAMP 0 st4)
                  in bindF (v4l2_ctrl_handler_setup uninit st5) (\<lambda>(ret, st6).
                       if ret \<noteq> 0 then Inr (ret, st6)
                       else Inr (imx586_write_reg_1byte IMX586_REG_MODE_SELECT
                                   IMX586_MODE_STREAMING st6)))))"

definition imx586_stop_streaming :: "imx586 \<Rightarrow> imx586" where
  "imx586_stop_streaming st =
     snd (imx586_write_reg_1byte IMX586_REG_MODE_SELECT IMX586_MODE_STANDBY st)"

text \<open>\<open>imx586_set_stream\<close>; \<open>enable\<close> is the \<open>int\<close> argument of the source, \<open>pm_ret\<close>
  the result of resuming the device.\<close>

definition imx586_set_stream :: "u64 \<Rightarrow> int \<Rightarrow> int \<Rightarrow> imx586 \<Rightarrow> fault + (int \<times> imx586)" where
  "imx586_set_stream uninit pm_ret enable st =
     (if (if streaming st then 1 else 0) = enable then Inr (0, st)
      else if enable \<noteq> 0 then
        (let (ret, st1) = pm_runtime_get_sync pm_ret st
         in if ret < 0 then Inr (ret, pm_runtime_put st1)
            else bindF (imx586_start_streaming uninit st1) (\<lambda>(ret, st2).
                   if ret \<noteq> 0 then Inr (ret, pm_runtime_put st2)
                   else Inr (ret, st2\<lparr>streaming := True,
                                      vflip := v4l2_ctrl_grab (vflip st2) True\<rparr>)))
      else
        (let st1 = pm_runtime_put (imx586_stop_streaming st)
         in Inr (0, st1\<lparr>streaming := False, vflip := v4l2_ctrl_grab (vflip st1) False\<rparr>)))"

definition imx586_power_off :: "imx586 \<Rightarrow> imx586" where
  "imx586_power_off st = st\<lparr>common_regs_written := False\<rparr>"



section \<open>The spec's own formulas\<close>

text \<open>The gain stage selector in the words of the spec (section 4.3): the register gain and
  whether the high conversion gain stage is selected.\<close>

definition spec_gain_select :: "bool \<Rightarrow> int \<Rightarrow> int \<times> bool" where
  "spec_gain_select hdr_active requested_gain =
     (if hdr_active then (requested_gain, False)
      else if requested_gain \<ge> 80 then (max (requested_gain - 51) 34, True)
      else (requested_gain, False))"

text \<open>The line length in the words of the spec (section 4.2): the rounded quotient of
  \<open>(width + hblank) * reference_pixel_rate\<close> by the pixel rate at the minimal line length,
  \<open>width * fixed_pixel_rate / min_line_length\<close>; both rates are \<open>IMX586_PIXEL_RATE\<close>.\<close>

definition spec_line_length :: "imx586_mode \<Rightarrow> int \<Rightarrow> int" where
  "spec_line_length m hb =
     round ((real (unat (width m)) + real_of_int hb) * 74250000 /
            (real (unat (width m)) * 74250000 / real (unat (min_HMAX m))))"

section \<open>What a start of streaming checks\<close>

text \<open>The registers whose writes \<open>imx586_start_streaming\<close> and the handlers it calls do
  not check: the register hold and the gain (\<open>imx586_set_ctrl\<close>), the black level, the
  compression curve, the HDR thresholds and the digital clamp.\<close>

definition unchecked_regs :: "u16 list" where
  "unchecked_regs =
     [0x3001, IMX586_REG_ANALOG_GAIN, IMX586_REG_BLKLEVEL,
      IMX586_REG_CCMP1_EXP, IMX586_REG_ACMP1_EXP, IMX586_REG_CCMP2_EXP, IMX586_REG_ACMP2_EXP,
      IMX586_REG_EXP_TH_H, IMX586_REG_EXP_TH_L, IMX586_REG_EXP_BK, IMX586_REG_DIGITAL_CLAMP]"

text \<open>A logged message whose transfer failed with a result other than zero, on a register
  that is not one of those.\<close>

definition aborting_failure :: "u8 list \<times> int \<Rightarrow> bool" where
  "aborting_failure e =
     (snd e \<noteq> int (length (fst e)) \<and> snd e \<noteq> 0 \<and>
      take 2 (fst e) \<notin> set (map put_unaligned_be16 unchecked_regs))"

text \<open>From \<open>st\<close> to \<open>st'\<close> the streaming flag is kept and the log has grown; when \<open>z\<close>
  holds, no new message is such a failure.\<close>

definition extends_log :: "bool \<Rightarrow> imx586 \<Rightarrow> imx586 \<Rightarrow> bool" where
  "extends_log z st st' =
     (streaming st' = streaming st \<and>
      (\<exists>new. i2c_log st' = new @ i2c_log st \<and> (z \<longrightarrow> \<not> list_ex aborting_failure new)))"

text \<open>What the start sequence needs in order to return: a mode of the catalog, a line
  length other than zero, by which the exposure is divided, and a horizontal blanking within
  the range [0, 0xFFFF] of its control, from which the new line length is computed.\<close>

definition start_ready :: "imx586 \<Rightarrow> bool" where
  "start_ready st =
     (mode st \<in> set mode_catalog \<and> HMAX st \<noteq> 0 \<and>
      0 \<le> sint (val (hblank st)) \<and> sint (val (hblank st)) \<le> 0xFFFF)"

section \<open>Devices and requests of the examples\<close>

text \<open>A colour sensor after \<open>imx586_probe\<close>, on a bus that answers every transfer, where
  the uninitialised variable of \<open>imx586_set_ctrl\<close> held zero.\<close>

definition probed_colour :: imx586 where
  "probed_colour =
     \<lparr>fmt_code = MEDIA_BUS_FMT_SRGGB12_1X12,
      pixel_rate = \<lparr>minimum = 520560000, maximum = 520560000, step = 1,
                     default_value = 520560000, val = 0xffff, grabbed = False\<rparr>,
      exposure = \<lparr>minimum = 4, maximum = 2230, step = 1, default_value = 4, val = 1000,
                   grabbed = False\<rparr>,
      vflip = \<lparr>minimum = 0, maximum = 1, step = 1, default_value = 0, val = 0,
                grabbed = False\<rparr>,
      hflip = \<lparr>minimum = 0, maximum = 1, step = 1, default_value = 0, val = 0,
                grabbed = False\<rparr>,
      vblank = \<lparr>minimum = 70, maximum = 1046395, step = 1, default_value = 70, val = 70,
                 grabbed = False\<rparr>,
      hblank = \<lparr>minimum = 0, maximum = 0xffff, step = 1, default_value = 0, val = 0,
                 grabbed = False\<rparr>,
      analogue_gain = \<lparr>minimum = 0, maximum = 240, step = 1, default_value = 0, val = 0,
                        grabbed = False\<rparr>,
      mode = supported_modes_12bit ! 0, mono_dev = False, HMAX = 550, VMAX = 2250,
      streaming = False, common_regs_written = False, pm_usage = 0, i2c_script = [],
      i2c_log = []\<rparr>"

text \<open>The same sensor with the horizontal flip switched on.\<close>

definition hflipped_colour :: imx586 where
  "hflipped_colour = probed_colour\<lparr>hflip := (hflip probed_colour)\<lparr>val := 1\<rparr>\<rparr>"

text \<open>A request for the active image format with a monochrome code, and the try formats
  of the file handle that makes it.\<close>

definition blank_framefmt :: v4l2_mbus_framefmt where
  "blank_framefmt =
     \<lparr>fmt_width = 0, fmt_height = 0, code = 0, field = V4L2_FIELD_ANY,
      colorspace = V4L2_COLORSPACE_DEFAULT, ycbcr_enc = V4L2_YCBCR_ENC_DEFAULT,
      quantization = V4L2_QUANTIZATION_DEFAULT, xfer_func = V4L2_XFER_FUNC_DEFAULT\<rparr>"

definition blank_subdev_state :: v4l2_subdev_state where
  "blank_subdev_state = \<lparr>try_fmt_image = blank_framefmt, try_fmt_metadata = blank_framefmt\<rparr>"

definition y12_request :: v4l2_subdev_format where
  "y12_request =
     \<lparr>which = V4L2_SUBDEV_FORMAT_ACTIVE, pad = IMAGE_PAD,
      format = blank_framefmt\<lparr>fmt_width := 3840, fmt_height := 2160,
                 code := MEDIA_BUS_FMT_Y12_1X12\<rparr>\<rparr>"

definition y12_frame_size_enum :: v4l2_subdev_frame_size_enum where
  "y12_frame_size_enum =
     \<lparr>fse_index = 0, fse_pad = IMAGE_PAD, fse_code = MEDIA_BUS_FMT_Y12_1X12,
      min_width = 0, max_width = 0, min_height = 0, max_height = 0\<rparr>"


text \<open>The sensor in its binned 1080p mode, in use.\<close>

definition in_use_1080 :: imx586 where
  "in_use_1080 = probed_colour\<lparr>mode := supported_modes_12bit ! 1, HMAX := 366, pm_usage := 1\<rparr>"

text \<open>The messages of a start of the colour sensor after \<open>imx586_probe\<close> on a bus that
  answers every transfer, the newest first: the mode select, the controls (both flips,
  the gain between the two register holds, the exposure, the line length, the frame
  length), the digital clamp, the compression curve, the list of the mode, the black level,
  the common list.\<close>

definition sent_regs :: "imx586_reg list \<Rightarrow> (u8 list \<times> int) list" where
  "sent_regs regs = rev (map (\<lambda>(a, v). (put_unaligned_be16 a @ [v], 3)) regs)"

definition start_tail :: "(u8 list \<times> int) list" where
  "start_tail =
     [([0x30, 0x00, 0x00], 3),
      ([0x30, 0x21, 0x00], 3), ([0x30, 0x20, 0x00], 3),
      ([0x30, 0x01, 0x00], 3), ([0x30, 0x30, 0x00], 3), ([0x30, 0x6C, 0x00, 0x00], 4),
      ([0x30, 0x01, 0x01], 3),
      ([0x30, 0x50, 0xE3, 0x04], 4), ([0x30, 0x2C, 0x26, 0x02], 4),
      ([0x30, 0x28, 0xCA, 0x08, 0x00], 5),
      ([0x34, 0x58, 0x00], 3),
      ([0x36, 0xEC, 0x00], 3), ([0x36, 0xE4, 0x00, 0x00, 0x00], 5),
      ([0x36, 0xEE, 0x00], 3), ([0x36, 0xE8, 0x00, 0x00, 0x00], 5)]
     @ sent_regs mode_4k_regs"

text \<open>\<open>blk\<close> is the result of the transfer of the black level.\<close>

definition start_messages :: "int \<Rightarrow> (u8 list \<times> int) list" where
  "start_messages blk =
     start_tail @ [([0x30, 0xDC, 0x00, 0x00], blk)] @ sent_regs mode_common_regs"

definition streaming_colour :: imx586 where
  "streaming_colour =
     probed_colour\<lparr>streaming := True, common_regs_written := True, pm_usage := 1,
       vflip := (vflip probed_colour)\<lparr>grabbed := True\<rparr>, i2c_log := start_messages 4\<rparr>"

text \<open>The probed colour sensor on a bus that fails the transfer of the black level (the
  243rd message of the first start) with \<open>-EIO\<close>, and on a bus that fails the first
  transfer.\<close>

definition blk_fail_colour :: imx586 where
  "blk_fail_colour = probed_colour\<lparr>i2c_script := replicate 242 None @ [Some (- EIO)]\<rparr>"

definition first_fail_colour :: imx586 where
  "first_fail_colour = probed_colour\<lparr>i2c_script := [Some (- EIO)]\<rparr>"

section \<open>Auxiliary facts\<close>

lemmas media_bus_fmt_defs =
  MEDIA_BUS_FMT_SENSOR_DATA_def
  MEDIA_BUS_FMT_SRGGB16_1X16_def MEDIA_BUS_FMT_SGRBG16_1X16_def
  MEDIA_BUS_FMT_SGBRG16_1X16_def MEDIA_BUS_FMT_SBGGR16_1X16_def
  MEDIA_BUS_FMT_SRGGB12_1X12_def MEDIA_BUS_FMT_SGRBG12_1X12_def
  MEDIA_BUS_FMT_SGBRG12_1X12_def MEDIA_BUS_FMT_SBGGR12_1X12_def
  MEDIA_BUS_FMT_Y16_1X16_def MEDIA_BUS_FMT_Y12_1X12_def

lemma code_index_in: "c \<in> set t \<Longrightarrow> code_index t c < length t \<and> t ! code_index t c = c"
  by (induction t) auto

lemma code_index_notin: "c \<notin> set t \<Longrightarrow> code_index t c = length t"
  by (induction t) auto

lemma get_format_code_in_table:
  "rq \<in> set (if mono_dev st then mono_codes else codes) \<Longrightarrow>
   imx586_get_format_code st rq = Inr rq"
  using code_index_in [of rq "if mono_dev st then mono_codes else codes"]
  by (simp add: imx586_get_format_code_def Let_def)

subsection \<open>Words as numbers\<close>

lemma unat_ucast_u64_u32:
  fixes x :: u64
  assumes "unat x < 2 ^ 32"
  shows "unat (ucast x :: u32) = unat x"
  using assms by (simp add: unsigned_ucast_eq take_bit_nat_eq_self)

lemma unat_ucast_u32_u64: "unat (ucast (y :: u32) :: u64) = unat y"
proof -
  have "unat y < 2 ^ 32" using unsigned_less [of y] by simp
  then have "unat y < 2 ^ 64" by simp
  then show ?thesis by (simp add: unsigned_ucast_eq take_bit_nat_eq_self)
qed

lemma ucast_u32_u64_id:
  fixes x :: u64
  assumes "unat x < 2 ^ 32"
  shows "(ucast (ucast x :: u32) :: u64) = x"
  using assms by (simp add: word_unat_eq_iff unat_ucast_u32_u64 unat_ucast_u64_u32)

lemma ucast_u32_eq_0_iff:
  fixes x :: u64
  assumes "unat x < 2 ^ 32"
  shows "(ucast x :: u32) = 0 \<longleftrightarrow> unat x = 0"
  using assms by (simp add: word_unat_eq_iff [of "ucast x :: u32"] unat_ucast_u64_u32)

lemma do_div_nat:
  fixes n base :: u64
  assumes "0 < unat base" "unat base < 2 ^ 32"
  shows "do_div n base = Inr (n div base)"
  using assms by (simp add: do_div_def Let_def ucast_u32_u64_id ucast_u32_eq_0_iff)

lemma clamp_t_u32_full: "clamp_t_u32 v 0 0xFFFFFFFF = ucast v"
proof -
  have "unat (ucast v :: u32) < 2 ^ 32" using unsigned_less [of "ucast v :: u32"] by simp
  then have "(ucast v :: u32) \<le> 0xFFFFFFFF" by (simp add: word_le_nat_alt)
  then show ?thesis by (simp add: clamp_t_u32_def max_def min_def)
qed

lemma calc_exposure_nat:
  fixes hmax vmax shr offset :: u64
  assumes H: "0 < unat hmax" "unat hmax < 2 ^ 32"
    and S: "unat shr \<le> unat vmax"
    and N: "(unat vmax - unat shr) * unat hmax + unat offset < 2 ^ 64"
    and Q: "((unat vmax - unat shr) * unat hmax + unat offset) div unat hmax < 2 ^ 32"
  shows "\<exists>e. calculate_v4l2_cid_exposure hmax vmax shr 0 offset = Inr e \<and>
             unat e = ((unat vmax - unat shr) * unat hmax + unat offset) div unat hmax"
proof -
  let ?n = "(vmax * (0 + 1) - shr) * hmax + offset"
  have d: "unat (vmax - shr) = unat vmax - unat shr"
    using S by (simp add: unat_sub word_le_nat_alt)
  have m: "unat ((vmax - shr) * hmax) = (unat vmax - unat shr) * unat hmax"
    using N d by (simp add: unat_mult_lem [THEN iffD1])
  have n: "unat ?n = (unat vmax - unat shr) * unat hmax + unat offset"
    using N m by (simp add: unat_add_lem [THEN iffD1])
  have q: "unat (?n div hmax) = ((unat vmax - unat shr) * unat hmax + unat offset) div unat hmax"
    using n by (simp add: unat_div)
  have "(ucast (ucast (?n div hmax) :: u32) :: u64) = ?n div hmax"
    using Q q by (simp add: ucast_u32_u64_id)
  then have "calculate_v4l2_cid_exposure hmax vmax shr 0 offset = Inr (?n div hmax)"
    using H by (simp add: calculate_v4l2_cid_exposure_def do_div_nat clamp_t_u32_full bindF_def)
  with q show ?thesis by simp
qed

lemma calc_shr_nat:
  fixes exposure hmax :: u32 and vmax :: u64
  assumes H: "0 < unat hmax"
    and E: "209 \<le> unat exposure * unat hmax"
    and V: "(unat exposure * unat hmax - 209) div unat hmax \<le> unat vmax"
    and R: "unat vmax - (unat exposure * unat hmax - 209) div unat hmax < 2 ^ 32"
  shows "\<exists>s. calculate_shr exposure hmax vmax 0 209 = Inr s \<and>
             unat s = unat vmax - (unat exposure * unat hmax - 209) div unat hmax"
proof -
  let ?e = "ucast exposure :: u64" and ?h = "ucast hmax :: u64"
  have ue: "unat ?e = unat exposure" and uh: "unat ?h = unat hmax"
    by (simp_all add: unat_ucast_u32_u64)
  have "unat exposure < 2 ^ 32" "unat hmax < 2 ^ 32"
    using unsigned_less [of exposure] unsigned_less [of hmax] by simp_all
  then have "unat exposure * unat hmax < 2 ^ 32 * 2 ^ 32"
    by (intro mult_strict_mono) simp_all
  then have lt: "unat exposure * unat hmax < 2 ^ 64" by simp
  have m: "unat (?e * ?h) = unat exposure * unat hmax"
    using lt by (simp add: unat_mult_lem [THEN iffD1] ue uh)
  have o: "unat (ucast (209 :: u32) :: u64) = 209" by simp
  have t: "unat (?e * ?h - ucast (209 :: u32)) = unat exposure * unat hmax - 209"
    using E m o by (simp add: unat_sub word_le_nat_alt)
  let ?temp = "(?e * ?h - ucast (209 :: u32)) div ?h"
  have q: "unat ?temp = (unat exposure * unat hmax - 209) div unat hmax"
    using t by (simp add: unat_div uh)
  have dv: "do_div (?e * ?h - ucast (209 :: u32)) ?h = Inr ?temp"
    using H uh \<open>unat hmax < 2 ^ 32\<close> by (simp add: do_div_nat)
  have one: "(ucast ((0 :: u32) + 1) :: u64) = 1" by simp
  have s: "unat (vmax * 1 - ?temp) = unat vmax - (unat exposure * unat hmax - 209) div unat hmax"
    using V q by (simp add: unat_sub word_le_nat_alt)
  have "unat (ucast (vmax * 1 - ?temp) :: u32) =
          unat vmax - (unat exposure * unat hmax - 209) div unat hmax"
    using R s by (simp add: unat_ucast_u64_u32)
  moreover have "calculate_shr exposure hmax vmax 0 209 = Inr (ucast (vmax * 1 - ?temp))"
    using dv one by (simp add: calculate_shr_def bindF_def)
  ultimately show ?thesis by simp
qed

lemma unat_ucast_u16_u64: "unat (ucast (y :: u16) :: u64) = unat y"
proof -
  have "unat y < 2 ^ 16" using unsigned_less [of y] by simp
  then have "unat y < 2 ^ 64" by simp
  then show ?thesis by (simp add: unsigned_ucast_eq take_bit_nat_eq_self)
qed

lemma exposure_bounds_nat:
  fixes hmax :: u16 and vmax :: u32
  assumes H: "209 < unat hmax" and V: "24 \<le> unat vmax"
  shows "\<exists>mn mx. calculate_min_max_v4l2_cid_exposure (ucast hmax) (ucast vmax) 20 0 209 =
                   Inr (mn, mx) \<and>
                 unat mn = unat vmax - min (unat vmax - 4) 65535 \<and>
                 unat mx = unat vmax - 20"
proof -
  let ?h = "ucast hmax :: u64" and ?v = "ucast vmax :: u64"
  let ?H = "unat hmax" and ?V = "unat vmax"
  have uh: "unat ?h = ?H" by (rule unat_ucast_u16_u64)
  have uv: "unat ?v = ?V" by (rule unat_ucast_u32_u64)
  have Hb: "?H < 2 ^ 16" using unsigned_less [of hmax] by simp
  have Vb: "?V < 2 ^ 32" using unsigned_less [of vmax] by simp
  let ?m = "min (?v - 4) (0xFFFF :: u64)"
  let ?M = "min (?V - 4) 65535"
  have "unat (?v - 4) = ?V - 4" using V uv by (simp add: unat_sub word_le_nat_alt)
  then have um: "unat ?m = ?M" by (simp add: min_def word_le_nat_alt)
  have u20: "unat (20 :: u64) = 20" and u209: "unat (209 :: u64) = 209" by simp_all
  have M: "20 \<le> ?M" "?M \<le> ?V" using V by simp_all
  have q: "(a * ?H + 209) div ?H = a" for a using H by simp
  have b: "a * ?H + 209 < 2 ^ 64" if "a \<le> ?V" for a
  proof -
    have "a * ?H \<le> 2 ^ 32 * 2 ^ 16" using that Vb Hb by (intro mult_mono) simp_all
    then show ?thesis by simp
  qed
  have h1: "0 < unat ?h" and h2: "unat ?h < 2 ^ 32" using H Hb uh by simp_all
  have s1: "unat ?m \<le> unat ?v" unfolding um uv by (rule M(2))
  have n1: "(unat ?v - unat ?m) * unat ?h + unat (209 :: u64) < 2 ^ 64"
    unfolding um uv uh u209 by (rule b) simp
  have "?V - ?M < 2 ^ 32" using Vb by simp
  then have q1: "((unat ?v - unat ?m) * unat ?h + unat (209 :: u64)) div unat ?h < 2 ^ 32"
    unfolding um uv uh u209 q .
  obtain mn where mn: "calculate_v4l2_cid_exposure ?h ?v ?m 0 209 = Inr mn"
    and umn: "unat mn = ((unat ?v - unat ?m) * unat ?h + unat (209 :: u64)) div unat ?h"
    using calc_exposure_nat [OF h1 h2 s1 n1 q1] by blast
  have s2: "unat (20 :: u64) \<le> unat ?v" unfolding uv u20 using V by simp
  have n2: "(unat ?v - unat (20 :: u64)) * unat ?h + unat (209 :: u64) < 2 ^ 64"
    unfolding uv uh u20 u209 by (rule b) simp
  have "?V - 20 < 2 ^ 32" using Vb by simp
  then have q2: "((unat ?v - unat (20 :: u64)) * unat ?h + unat (209 :: u64)) div unat ?h < 2 ^ 32"
    unfolding uv uh u20 u209 q .
  obtain mx where mx: "calculate_v4l2_cid_exposure ?h ?v 20 0 209 = Inr mx"
    and umx: "unat mx = ((unat ?v - unat (20 :: u64)) * unat ?h + unat (209 :: u64)) div unat ?h"
    using calc_exposure_nat [OF h1 h2 s2 n2 q2] by blast
  have "calculate_min_max_v4l2_cid_exposure ?h ?v 20 0 209 = Inr (mn, mx)"
    using mn mx by (simp add: calculate_min_max_v4l2_cid_exposure_def Let_def bindF_def)
  moreover have "unat mn = ?V - ?M" using umn unfolding um uv uh u209 q .
  moreover have "unat mx = ?V - 20" using umx unfolding uv uh u20 u209 q .
  ultimately show ?thesis by blast
qed

lemma nat_round_trip:
  fixes a H :: nat
  assumes H: "0 < H" and a: "1 \<le> a"
  shows "209 \<le> ((a * H + 209) div H) * H"
    and "(((a * H + 209) div H) * H - 209) div H = a - (if H dvd 209 then 0 else 1)"
proof -
  obtain q r where q: "q = 209 div H" and r: "r = 209 mod H" by simp
  have s: "q * H + r = 209" by (simp add: q r)
  have rH: "r < H" using H by (simp add: r)
  have d: "(a * H + 209) div H = a + q" using H by (simp add: q)
  have aH: "H \<le> a * H" using a by simp
  have m: "(a + q) * H = a * H + q * H" by (simp add: add_mult_distrib)
  show "209 \<le> ((a * H + 209) div H) * H"
    using s rH aH unfolding d m by arith
  have e: "(a + q) * H - 209 = a * H - r"
    using s unfolding m by arith
  show "(((a * H + 209) div H) * H - 209) div H = a - (if H dvd 209 then 0 else 1)"
  proof (cases "r = 0")
    case True
    then have "H dvd 209" by (simp add: r dvd_eq_mod_eq_0)
    with True d e H show ?thesis by simp
  next
    case False
    then have nd: "\<not> H dvd 209" by (simp add: r dvd_eq_mod_eq_0)
    obtain b where b: "a = Suc b" using a by (cases a) auto
    have "a * H - r = b * H + (H - r)" using b rH by simp
    moreover have "(H - r) div H = 0" using False rH by simp
    then have "(b * H + (H - r)) div H = b" using H div_mult_self3 [of H b "H - r"] by simp
    ultimately show ?thesis using d e nd b by simp
  qed
qed

lemma catalog_bounds:
  "m \<in> set mode_catalog \<Longrightarrow>
   min_SHR m = 20 \<and> 366 \<le> unat (min_HMAX m) \<and> 2250 \<le> unat (min_VMAX m)"
  by (auto simp add: mode_catalog_def supported_modes_12bit_def
      supported_modes_nonlinear_12bit_def supported_modes_16bit_def)

subsection \<open>Register writes\<close>

lemma write_reg_1byte_eq:
  "imx586_write_reg_1byte reg v st =
     (if i2c_result (i2c_script st) 3 \<noteq> 3 then i2c_result (i2c_script st) 3 else 0,
      st\<lparr>i2c_script := tl (i2c_script st),
         i2c_log := (put_unaligned_be16 reg @ [v], i2c_result (i2c_script st) 3) # i2c_log st\<rparr>)"
  by (simp add: imx586_write_reg_1byte_def i2c_master_send_def put_unaligned_be16_def Let_def
      eval_nat_numeral)

lemma write_reg_2byte_eq:
  "imx586_write_reg_2byte reg v st =
     (if i2c_result (i2c_script st) 4 \<noteq> 4 then i2c_result (i2c_script st) 4 else 0,
      st\<lparr>i2c_script := tl (i2c_script st),
         i2c_log := (put_unaligned_be16 reg @ [ucast v, ucast (drop_bit 8 v)],
                     i2c_result (i2c_script st) 4) # i2c_log st\<rparr>)"
  by (simp add: imx586_write_reg_2byte_def i2c_master_send_def put_unaligned_be16_def Let_def
      eval_nat_numeral)

lemma write_reg_3byte_eq:
  "imx586_write_reg_3byte reg v st =
     (if i2c_result (i2c_script st) 5 \<noteq> 5 then - 5 else 0,
      st\<lparr>i2c_script := tl (i2c_script st),
         i2c_log := (put_unaligned_be16 reg @ [ucast v, ucast (drop_bit 8 v), ucast (drop_bit 16 v)],
                     i2c_result (i2c_script st) 5) # i2c_log st\<rparr>)"
  by (simp add: imx586_write_reg_3byte_def i2c_master_send_def put_unaligned_be16_def Let_def
      eval_nat_numeral)

lemma register_hold_eq:
  "imx586_register_hold hold st =
     st\<lparr>i2c_script := tl (i2c_script st),
        i2c_log := ([0x30, 0x01, if hold then 1 else 0], i2c_result (i2c_script st) 3) # i2c_log st\<rparr>"
  by (simp add: imx586_register_hold_def write_reg_1byte_eq put_unaligned_be16_def)

lemma low_bytes:
  fixes w :: u16
  assumes "unat w < 256"
  shows "(ucast (drop_bit 8 w) :: u8) = 0"
proof -
  have "unat (drop_bit 8 w) = 0" using assms by (simp add: unat_drop_bit_eq drop_bit_eq_div unat_div)
  then have "drop_bit 8 w = 0" by (simp add: unat_eq_0)
  then show ?thesis by simp
qed

lemma word_of_int_bytes:
  assumes "0 \<le> g" "g < 256"
  shows "(ucast (word_of_int g :: u16) :: u8) = word_of_int g"
    and "(ucast (drop_bit 8 (word_of_int g :: u16)) :: u8) = 0"
proof -
  show "(ucast (word_of_int g :: u16) :: u8) = word_of_int g"
    by (simp add: unsigned_of_int word_uint_eq_iff uint_word_of_int take_bit_eq_mod mod_mod_cancel)
  have "unat (word_of_int g :: u16) = nat g"
    using assms by (simp add: unat_eq_nat_uint uint_word_of_int take_bit_eq_mod)
  then have "unat (word_of_int g :: u16) < 256" using assms by simp
  then show "(ucast (drop_bit 8 (word_of_int g :: u16)) :: u8) = 0" by (rule low_bytes)
qed

lemma set_ctrl_switch_gain:
  "imx586_set_ctrl_switch V4L2_CID_ANALOGUE_GAIN v st =
     (let g = fst (spec_gain_select (hdr (mode st)) (sint v));
          h = snd (spec_gain_select (hdr (mode st)) (sint v));
          st1 = imx586_register_hold True st;
          st2 = snd (imx586_write_reg_2byte 0x306C (word_of_int g) st1);
          r3 = imx586_write_reg_1byte 0x3030 (if h then 1 else 0) st2
      in Inr (fst r3, imx586_register_hold False (snd r3)))"
  by (simp add: imx586_set_ctrl_switch_def spec_gain_select_def Let_def case_prod_beta max_def)

lemma unat_ucast_u64_u16:
  fixes x :: u64
  assumes "unat x < 2 ^ 16"
  shows "unat (ucast x :: u16) = unat x"
  using assms by (simp add: unsigned_ucast_eq take_bit_nat_eq_self)

lemma unat_of_nonneg_sint:
  fixes v :: s32
  assumes "0 \<le> sint v"
  shows "unat v = nat (sint v)"
proof -
  have "sint v < 2 ^ 32" using sint_lt [of v] by simp
  then have "take_bit 32 (sint v) = sint v" using assms by (simp add: take_bit_int_eq_self)
  then have "uint v = sint v" using uint_sint [of v] by simp
  then show ?thesis by (simp add: unat_eq_nat_uint)
qed

lemma hblank_hmax_nat:
  fixes w :: u32 and mh :: u64 and v :: s32
  assumes mh: "0 < unat mh" "unat mh < 2 ^ 32"
    and P: "0 < unat w * 74250000 div unat mh" "unat w * 74250000 div unat mh < 2 ^ 32"
    and v: "0 \<le> sint v" "sint v \<le> 65535" and w: "unat w \<le> 65535"
    and b: "(unat w + 65535) * 74250000 div (unat w * 74250000 div unat mh) < 65536"
  shows "\<exists>pr hm. do_div (ucast w * 74250000) mh = Inr pr \<and>
                 do_div (ucast (w + v) * 74250000) pr = Inr hm \<and>
                 unat (ucast hm :: u16) =
                   (unat w + nat (sint v)) * 74250000 div (unat w * 74250000 div unat mh)"
proof -
  let ?K = "74250000 :: nat" and ?P = "unat w * 74250000 div unat mh"
  let ?n = "nat (sint v)"
  have uv: "unat v = ?n" using v(1) by (rule unat_of_nonneg_sint)
  have n: "?n \<le> 65535" using v by simp
  have wb: "unat w < 2 ^ 32" using unsigned_less [of w] by simp
  have uK: "unat (74250000 :: u64) = ?K" by simp
  have "unat w * ?K < 2 ^ 32 * 2 ^ 27" using wb by (intro mult_strict_mono) simp_all
  then have "unat (ucast w :: u64) * unat (74250000 :: u64) < 2 ^ 64"
    by (simp add: unat_ucast_u32_u64)
  then have m1: "unat (ucast w * 74250000 :: u64) = unat w * ?K"
    by (simp add: unat_mult_lem [THEN iffD1] unat_ucast_u32_u64)
  let ?pr = "(ucast w * 74250000 :: u64) div mh"
  have d1: "do_div (ucast w * 74250000) mh = Inr ?pr" using mh by (rule do_div_nat)
  have upr: "unat ?pr = ?P" by (simp only: unat_div m1)
  have "unat w + unat v < 2 ^ 32" using w n uv by simp
  then have s: "unat (w + v) = unat w + ?n" by (simp add: unat_add_lem [THEN iffD1] uv)
  have "(unat w + ?n) * ?K \<le> 131070 * ?K" using w n by (intro mult_right_mono) simp_all
  then have "unat (ucast (w + v) :: u64) * unat (74250000 :: u64) < 2 ^ 64"
    by (simp add: unat_ucast_u32_u64 s)
  then have m2: "unat (ucast (w + v) * 74250000 :: u64) = (unat w + ?n) * ?K"
    by (simp add: unat_mult_lem [THEN iffD1] unat_ucast_u32_u64 s)
  let ?hm = "(ucast (w + v) * 74250000 :: u64) div ?pr"
  have p1: "0 < unat ?pr" and p2: "unat ?pr < 2 ^ 32" using P upr by simp_all
  have d2: "do_div (ucast (w + v) * 74250000) ?pr = Inr ?hm" using p1 p2 by (rule do_div_nat)
  have uhm: "unat ?hm = (unat w + ?n) * ?K div ?P" by (simp only: unat_div m2 m1)
  have "(unat w + ?n) * ?K div ?P \<le> (unat w + 65535) * ?K div ?P"
    using n by (intro div_le_mono mult_right_mono) simp_all
  then have "unat ?hm < 2 ^ 16" using b uhm by simp
  then have "unat (ucast ?hm :: u16) = (unat w + ?n) * ?K div ?P"
    using uhm by (simp add: unat_ucast_u64_u16)
  with d1 d2 show ?thesis by blast
qed

lemma catalog_line:
  "m \<in> set mode_catalog \<Longrightarrow>
   (width m = 3856 \<and> min_HMAX m = 550) \<or> (width m = 1928 \<and> min_HMAX m = 366) \<or>
   (width m = 1928 \<and> min_HMAX m = 550)"
  by (auto simp add: mode_catalog_def supported_modes_12bit_def
      supported_modes_nonlinear_12bit_def supported_modes_16bit_def)

lemma i2c_result_ok: "s = [] \<or> hd s = None \<Longrightarrow> i2c_result s n = int n"
  by (cases s) auto

lemma write_regs_ok:
  "\<forall>r \<in> set (take (length regs) (i2c_script st)). r = None \<Longrightarrow>
   imx586_write_regs regs st =
     (0, st\<lparr>i2c_script := drop (length regs) (i2c_script st),
            i2c_log := rev (map (\<lambda>(a, v). (put_unaligned_be16 a @ [v], 3)) regs) @ i2c_log st\<rparr>)"
proof (induction regs arbitrary: st)
  case Nil
  then show ?case by simp
next
  case (Cons x regs)
  obtain a v where x: "x = (a, v)" by (cases x)
  have h: "i2c_script st = [] \<or> hd (i2c_script st) = None"
    using Cons.prems by (cases "i2c_script st") auto
  have r: "i2c_result (i2c_script st) 3 = 3" using i2c_result_ok [OF h, of 3] by simp
  let ?st' = "st\<lparr>i2c_script := tl (i2c_script st),
      i2c_log := (put_unaligned_be16 a @ [v], 3) # i2c_log st\<rparr>"
  have t: "\<forall>r \<in> set (take (length regs) (i2c_script ?st')). r = None"
    using Cons.prems by (cases "i2c_script st") auto
  show ?case
    using Cons.IH [OF t] by (simp add: x write_reg_1byte_eq r drop_Suc)
qed

lemma probe_colour: "imx586_probe 0 False [] = Inr probed_colour"
  by (simp add: imx586_probe_def imx586_init_controls_def imx586_set_default_format_def
      imx586_alloc_def imx586_set_framing_limits_def v4l2_ctrl_s_ctrl_def clamp_t_s32_def
      imx586_set_ctrl_def
      calculate_min_max_v4l2_cid_exposure_def calculate_v4l2_cid_exposure_def clamp_t_u32_def
      v4l2_ctrl_new_std_def v4l2_ctrl_modify_range_def pm_runtime_get_if_in_use_def
      probed_colour_def supported_modes_12bit_def bindF_def do_div_def Let_def)

lemma write_regs_quiet:
  "i2c_script st = [] \<Longrightarrow>
   imx586_write_regs regs st = (0, st\<lparr>i2c_log := sent_regs regs @ i2c_log st\<rparr>)"
proof -
  assume s: "i2c_script st = []"
  then have "st\<lparr>i2c_script := []\<rparr> = st" by (cases st) simp
  then show ?thesis
    using write_regs_ok [of regs st] s by (simp add: sent_regs_def)
qed

lemma do_div_total:
  "(ucast base :: u32) \<noteq> 0 \<Longrightarrow> do_div n base = Inr (n div ucast (ucast base :: u32))"
  by (simp add: do_div_def Let_def)

lemma hmax_field_nonzero:
  fixes h :: u16
  assumes "h \<noteq> 0"
  shows "(ucast (ucast h :: u64) :: u32) \<noteq> 0"
proof -
  have "unat h \<noteq> 0" using assms by (simp add: unat_eq_0)
  moreover have "unat h < 2 ^ 16" using unsigned_less [of h] by simp
  then have "unat (ucast h :: u64) < 2 ^ 32" by (simp add: unat_ucast_u16_u64)
  then have "unat (ucast (ucast h :: u64) :: u32) = unat h"
    by (simp add: unat_ucast_u64_u32 unat_ucast_u16_u64)
  ultimately show ?thesis by (metis unat_eq_0)
qed

lemma calc_min_max_total:
  "(ucast hmax :: u32) \<noteq> 0 \<Longrightarrow>
   \<exists>mn mx. calculate_min_max_v4l2_cid_exposure hmax vmax s svr off = Inr (mn, mx)"
  by (simp add: calculate_min_max_v4l2_cid_exposure_def calculate_v4l2_cid_exposure_def
      do_div_total bindF_def Let_def)

subsection \<open>The writes of a start\<close>

lemma extends_refl: "extends_log z st st"
  by (simp add: extends_log_def)

lemma extends_trans:
  assumes "extends_log a st st1" "extends_log b st1 st2" "c \<Longrightarrow> a \<and> b"
  shows "extends_log c st st2"
proof -
  obtain n1 where n1: "i2c_log st1 = n1 @ i2c_log st" "a \<longrightarrow> \<not> list_ex aborting_failure n1"
    using assms(1) by (auto simp add: extends_log_def)
  obtain n2 where n2: "i2c_log st2 = n2 @ i2c_log st1" "b \<longrightarrow> \<not> list_ex aborting_failure n2"
    using assms(2) by (auto simp add: extends_log_def)
  have "i2c_log st2 = (n2 @ n1) @ i2c_log st" using n1 n2 by simp
  moreover have "c \<longrightarrow> \<not> list_ex aborting_failure (n2 @ n1)"
    using n1 n2 assms(3) by (auto simp add: list_ex_iff)
  moreover have "streaming st2 = streaming st"
    using assms(1,2) by (simp add: extends_log_def)
  ultimately show ?thesis unfolding extends_log_def by blast
qed

lemma extends_upd:
  assumes "extends_log z st st1" "i2c_log st2 = i2c_log st1" "streaming st2 = streaming st1"
  shows "extends_log z st st2"
  using assms by (simp add: extends_log_def)

lemma extends_from:
  assumes "extends_log z st0 st1" "i2c_log st = i2c_log st0" "streaming st = streaming st0"
  shows "extends_log z st st1"
  using assms by (simp add: extends_log_def)

lemma extends_one:
  assumes "i2c_log st' = e # i2c_log st" "streaming st' = streaming st"
    "z \<Longrightarrow> \<not> aborting_failure e"
  shows "extends_log z st st'"
proof -
  have "i2c_log st' = [e] @ i2c_log st" using assms(1) by simp
  moreover have "z \<longrightarrow> \<not> list_ex aborting_failure [e]" using assms(3) by simp
  ultimately show ?thesis using assms(2) unfolding extends_log_def by blast
qed

lemma write1_ext:
  "extends_log (fst (imx586_write_reg_1byte reg v st) = 0) st
     (snd (imx586_write_reg_1byte reg v st))"
  by (rule extends_one [where e = "(put_unaligned_be16 reg @ [v], i2c_result (i2c_script st) 3)"])
    (auto simp add: write_reg_1byte_eq aborting_failure_def put_unaligned_be16_def
      split: if_splits)

lemma write2_ext:
  "extends_log (fst (imx586_write_reg_2byte reg v st) = 0) st
     (snd (imx586_write_reg_2byte reg v st))"
  by (rule extends_one [where e = "(put_unaligned_be16 reg @ [ucast v, ucast (drop_bit 8 v)],
        i2c_result (i2c_script st) 4)"])
    (auto simp add: write_reg_2byte_eq aborting_failure_def put_unaligned_be16_def
      split: if_splits)

lemma write3_ext:
  "extends_log (fst (imx586_write_reg_3byte reg v st) = 0) st
     (snd (imx586_write_reg_3byte reg v st))"
  by (rule extends_one [where e = "(put_unaligned_be16 reg @
        [ucast v, ucast (drop_bit 8 v), ucast (drop_bit 16 v)], i2c_result (i2c_script st) 5)"])
    (auto simp add: write_reg_3byte_eq aborting_failure_def put_unaligned_be16_def
      split: if_splits)

lemma take2_be16: "length (put_unaligned_be16 reg) = 2"
  by (simp add: put_unaligned_be16_def)

lemma write1_unchecked:
  "reg \<in> set unchecked_regs \<Longrightarrow> extends_log z st (snd (imx586_write_reg_1byte reg v st))"
  by (rule extends_one [where e = "(put_unaligned_be16 reg @ [v], i2c_result (i2c_script st) 3)"])
    (simp_all add: write_reg_1byte_eq aborting_failure_def take2_be16)

lemma write2_unchecked:
  "reg \<in> set unchecked_regs \<Longrightarrow> extends_log z st (snd (imx586_write_reg_2byte reg v st))"
  by (rule extends_one [where e = "(put_unaligned_be16 reg @ [ucast v, ucast (drop_bit 8 v)],
        i2c_result (i2c_script st) 4)"])
    (simp_all add: write_reg_2byte_eq aborting_failure_def take2_be16)

lemma write3_unchecked:
  "reg \<in> set unchecked_regs \<Longrightarrow> extends_log z st (snd (imx586_write_reg_3byte reg v st))"
  by (rule extends_one [where e = "(put_unaligned_be16 reg @
        [ucast v, ucast (drop_bit 8 v), ucast (drop_bit 16 v)], i2c_result (i2c_script st) 5)"])
    (simp_all add: write_reg_3byte_eq aborting_failure_def take2_be16)

lemma hold_ext: "extends_log z st (imx586_register_hold hold st)"
  unfolding imx586_register_hold_def
  by (rule write1_unchecked) (simp add: unchecked_regs_def)

lemma write_regs_ext:
  "imx586_write_regs regs st = (ret, st') \<Longrightarrow> extends_log (ret = 0) st st'"
proof (induction regs arbitrary: st)
  case Nil
  then show ?case by (simp add: extends_refl)
next
  case (Cons x regs)
  obtain a v where x: "x = (a, v)" by (cases x)
  let ?w = "imx586_write_reg_1byte a v st"
  show ?case
  proof (cases "fst ?w = 0")
    case True
    then have "imx586_write_regs regs (snd ?w) = (ret, st')"
      using Cons.prems by (simp add: x case_prod_beta)
    then have "extends_log (ret = 0) (snd ?w) st'" by (rule Cons.IH)
    with write1_ext [of a v st] show ?thesis
      by (rule extends_trans) (simp add: True)
  next
    case False
    then have "ret = fst ?w" "st' = snd ?w"
      using Cons.prems by (simp_all add: x case_prod_beta)
    then show ?thesis using write1_ext [of a v st] by simp
  qed
qed

lemma set_ctrl_switch_ext:
  assumes "imx586_set_ctrl_switch cid v st = Inr (ret, st')"
  shows "extends_log (ret = 0) st st'"
proof (cases cid)
  case V4L2_CID_EXPOSURE
  then obtain shr :: u16 where "imx586_write_reg_2byte 0x3050 shr st = (ret, st')"
    using assms by (auto simp add: imx586_set_ctrl_switch_def bindF_def split: sum.splits)
  then have "ret = fst (imx586_write_reg_2byte 0x3050 shr st)"
    "st' = snd (imx586_write_reg_2byte 0x3050 shr st)" by (metis fst_conv, metis snd_conv)
  then show ?thesis using write2_ext [of "0x3050" shr st] by simp
next
  case V4L2_CID_ANALOGUE_GAIN
  define gn where "gn = (word_of_int (fst (spec_gain_select (hdr (mode st)) (sint v))) :: u16)"
  define hc where "hc = (if snd (spec_gain_select (hdr (mode st)) (sint v)) then 1 else 0 :: u8)"
  let ?st1 = "imx586_register_hold True st"
  let ?st2 = "snd (imx586_write_reg_2byte 0x306C gn ?st1)"
  let ?r3 = "imx586_write_reg_1byte 0x3030 hc ?st2"
  have r: "ret = fst ?r3" "st' = imx586_register_hold False (snd ?r3)"
    using assms V4L2_CID_ANALOGUE_GAIN
    by (simp_all add: set_ctrl_switch_gain Let_def gn_def hc_def)
  have a: "extends_log True st ?st1" by (rule hold_ext)
  have b: "extends_log True ?st1 ?st2"
    by (rule write2_unchecked) (simp add: unchecked_regs_def)
  have c: "extends_log (fst ?r3 = 0) ?st2 (snd ?r3)" by (rule write1_ext)
  have d: "extends_log True (snd ?r3) (imx586_register_hold False (snd ?r3))" by (rule hold_ext)
  have ab: "extends_log True st ?st2" by (rule extends_trans [OF a b]) simp
  have abc: "extends_log (fst ?r3 = 0) st (snd ?r3)" by (rule extends_trans [OF ab c]) simp
  have "extends_log (fst ?r3 = 0) st (imx586_register_hold False (snd ?r3))"
    by (rule extends_trans [OF abc d]) simp
  then show ?thesis using r by simp
next
  case V4L2_CID_VBLANK
  let ?st1 = "st\<lparr>VMAX := ucast ((ucast (height (mode st)) :: u64) + scast v)\<rparr>"
  have r: "ret = fst (imx586_write_reg_3byte 0x3028 (VMAX ?st1) ?st1)"
    "st' = snd (imx586_write_reg_3byte 0x3028 (VMAX ?st1) ?st1)"
    using assms V4L2_CID_VBLANK
    by (simp_all add: imx586_set_ctrl_switch_def Let_def prod_eq_iff)
  show ?thesis
    unfolding r
    by (rule extends_from [OF write3_ext]) simp_all
next
  case V4L2_CID_HBLANK
  then obtain hmax :: u64 where
    "imx586_write_reg_2byte 0x302C (ucast hmax) (st\<lparr>HMAX := ucast hmax\<rparr>) = (ret, st')"
    using assms
    by (auto simp add: imx586_set_ctrl_switch_def bindF_def Let_def split: sum.splits)
  then have r: "ret = fst (imx586_write_reg_2byte 0x302C (ucast hmax) (st\<lparr>HMAX := ucast hmax\<rparr>))"
    "st' = snd (imx586_write_reg_2byte 0x302C (ucast hmax) (st\<lparr>HMAX := ucast hmax\<rparr>))"
    by (metis fst_conv, metis snd_conv)
  show ?thesis
    unfolding r
    by (rule extends_from [OF write2_ext]) simp_all
next
  case V4L2_CID_HFLIP
  then have "ret = fst (imx586_write_reg_1byte 0x3020 (ucast v) st)"
    "st' = snd (imx586_write_reg_1byte 0x3020 (ucast v) st)"
    using assms by (simp_all add: imx586_set_ctrl_switch_def prod_eq_iff)
  then show ?thesis using write1_ext [of "0x3020" "ucast v" st] by simp
next
  case V4L2_CID_VFLIP
  then have "ret = fst (imx586_write_reg_1byte 0x3021 (ucast v) st)"
    "st' = snd (imx586_write_reg_1byte 0x3021 (ucast v) st)"
    using assms by (simp_all add: imx586_set_ctrl_switch_def prod_eq_iff)
  then show ?thesis using write1_ext [of "0x3021" "ucast v" st] by simp
next
  case V4L2_CID_PIXEL_RATE
  then show ?thesis using assms by (simp add: imx586_set_ctrl_switch_def extends_refl)
next
  case (V4L2_CID_OTHER n)
  then show ?thesis using assms by (simp add: imx586_set_ctrl_switch_def extends_refl)
qed

lemma set_ctrl_tail_ext:
  assumes "(let (in_use, st3) = pm_runtime_get_if_in_use st2
            in if in_use = 0 then Inr (0, st2)
               else bindF (imx586_set_ctrl_switch cid v st3)
                      (\<lambda>(ret, st4). Inr (ret, pm_runtime_put st4))) = Inr (ret, st')"
  shows "extends_log (ret = 0) st2 st'"
proof (cases "0 < pm_usage st2")
  case False
  then have "ret = 0" "st' = st2"
    using assms by (simp_all add: pm_runtime_get_if_in_use_def)
  then show ?thesis by (simp add: extends_refl)
next
  case True
  let ?st3 = "st2\<lparr>pm_usage := pm_usage st2 + 1\<rparr>"
  obtain st4 where s: "imx586_set_ctrl_switch cid v ?st3 = Inr (ret, st4)"
    and e: "st' = pm_runtime_put st4"
    using assms True
    by (auto simp add: pm_runtime_get_if_in_use_def bindF_def split: sum.splits)
  have "extends_log (ret = 0) ?st3 st4" using s by (rule set_ctrl_switch_ext)
  then have "extends_log (ret = 0) st2 st4"
    by (rule extends_from) simp_all
  then show ?thesis
    unfolding e by (rule extends_upd) (simp_all add: pm_runtime_put_def)
qed

lemma set_ctrl_ext:
  assumes "imx586_set_ctrl uninit cid v st = Inr (ret, st')"
  shows "extends_log (ret = 0) st st'"
proof (cases "cid = V4L2_CID_VBLANK")
  case False
  then show ?thesis
    using assms by (simp add: imx586_set_ctrl_def bindF_def set_ctrl_tail_ext)
next
  case True
  let ?st1 = "st\<lparr>VMAX := ucast ((ucast (height (mode st)) :: u64) + scast v)\<rparr>"
  obtain mn mx where c: "calculate_min_max_v4l2_cid_exposure (ucast (HMAX st))
      (ucast (VMAX ?st1)) (min_SHR (mode st)) 0 209 = Inr (mn, mx)"
    using assms True
    by (auto simp add: imx586_set_ctrl_def bindF_def Let_def split: sum.splits)
  let ?st2 = "st\<lparr>VMAX := ucast ((ucast (height (mode st)) :: u64) + scast v),
      exposure := v4l2_ctrl_modify_range (exposure st) mn mx 1
                    (ucast (clamp_t_u32 uninit mn mx))\<rparr>"
  have "(let (in_use, st3) = pm_runtime_get_if_in_use ?st2
         in if in_use = 0 then Inr (0, ?st2)
            else bindF (imx586_set_ctrl_switch V4L2_CID_VBLANK v st3)
                   (\<lambda>(ret, st4). Inr (ret, pm_runtime_put st4))) = Inr (ret, st')"
    using assms True c by (simp add: imx586_set_ctrl_def bindF_def Let_def)
  then have "extends_log (ret = 0) ?st2 st'" by (rule set_ctrl_tail_ext)
  then show ?thesis by (rule extends_from) simp_all
qed

lemma ctrl_setup_loop_ext:
  "ctrl_setup_loop uninit cids st = Inr (ret, st') \<Longrightarrow> extends_log (ret = 0) st st'"
proof (induction cids arbitrary: st)
  case Nil
  then show ?case by (simp add: extends_refl)
next
  case (Cons cid cids)
  show ?case
  proof (cases "ctrl_of cid st")
    case None
    then show ?thesis using Cons by simp
  next
    case (Some c)
    then obtain r1 s1 where a: "imx586_set_ctrl uninit cid (val c) st = Inr (r1, s1)"
      and b: "(if r1 \<noteq> 0 then Inr (r1, s1) else ctrl_setup_loop uninit cids s1) = Inr (ret, st')"
      using Cons.prems by (auto simp add: bindF_def split: sum.splits)
    have e1: "extends_log (r1 = 0) st s1" using a by (rule set_ctrl_ext)
    show ?thesis
    proof (cases "r1 = 0")
      case True
      then have "ctrl_setup_loop uninit cids s1 = Inr (ret, st')" using b by simp
      then have "extends_log (ret = 0) s1 st'" by (rule Cons.IH)
      with e1 show ?thesis by (rule extends_trans) (simp add: True)
    next
      case False
      then show ?thesis using b e1 by simp
    qed
  qed
qed

lemma write_common_ext:
  assumes "write_common st = (ret, st')"
  shows "extends_log (ret = 0) st st'"
proof (cases "common_regs_written st")
  case True
  then show ?thesis using assms by (simp add: write_common_def extends_refl)
next
  case False
  obtain r1 s1 where w: "imx586_write_regs mode_common_regs st = (r1, s1)"
    by (cases "imx586_write_regs mode_common_regs st")
  have e1: "extends_log (r1 = 0) st s1" using w by (rule write_regs_ext)
  show ?thesis
  proof (cases "r1 = 0")
    case True
    let ?s2 = "snd (imx586_write_reg_2byte 0x30DC 0 s1)"
    have r: "ret = 0" "st' = ?s2\<lparr>common_regs_written := True\<rparr>"
      using assms False w True by (simp_all add: write_common_def)
    have "extends_log True s1 ?s2" by (rule write2_unchecked) (simp add: unchecked_regs_def)
    with e1 have "extends_log True st ?s2" by (rule extends_trans) (simp add: True)
    then have "extends_log True st (?s2\<lparr>common_regs_written := True\<rparr>)"
      by (rule extends_upd) simp_all
    then show ?thesis using r by simp
  next
    case False
    then have "ret = r1" "st' = s1"
      using assms \<open>\<not> common_regs_written st\<close> w by (simp_all add: write_common_def)
    then show ?thesis using e1 by simp
  qed
qed

lemma write_ccmp_ext: "extends_log z st (write_ccmp st)"
proof -
  have u: "IMX586_REG_CCMP1_EXP \<in> set unchecked_regs" "IMX586_REG_ACMP1_EXP \<in> set unchecked_regs"
    "IMX586_REG_CCMP2_EXP \<in> set unchecked_regs" "IMX586_REG_ACMP2_EXP \<in> set unchecked_regs"
    by (simp_all add: unchecked_regs_def)
  have four: "extends_log z st
      (snd (imx586_write_reg_1byte 0x36EC d
        (snd (imx586_write_reg_3byte 0x36E4 c
          (snd (imx586_write_reg_1byte 0x36EE b
            (snd (imx586_write_reg_3byte 0x36E8 a st))))))))" for a b c d
  proof -
    let ?s1 = "snd (imx586_write_reg_3byte 0x36E8 a st)"
    let ?s2 = "snd (imx586_write_reg_1byte 0x36EE b ?s1)"
    let ?s3 = "snd (imx586_write_reg_3byte 0x36E4 c ?s2)"
    have "extends_log z st ?s1" by (rule write3_unchecked [OF u(1)])
    then have "extends_log z st ?s2"
      by (rule extends_trans [OF _ write1_unchecked [OF u(2)]]) simp
    then have "extends_log z st ?s3"
      by (rule extends_trans [OF _ write3_unchecked [OF u(3)]]) simp
    then show ?thesis
      by (rule extends_trans [OF _ write1_unchecked [OF u(4)]]) simp
  qed
  show ?thesis by (simp add: write_ccmp_def Let_def four)
qed

lemma write_hdr_ext: "extends_log z st (write_hdr st)"
proof -
  have u: "IMX586_REG_EXP_TH_H \<in> set unchecked_regs" "IMX586_REG_EXP_TH_L \<in> set unchecked_regs"
    "IMX586_REG_EXP_BK \<in> set unchecked_regs"
    by (simp_all add: unchecked_regs_def)
  let ?s1 = "snd (imx586_write_reg_2byte 0x36D0 4095 st)"
  let ?s2 = "snd (imx586_write_reg_2byte 0x36D4 512 ?s1)"
  let ?s3 = "snd (imx586_write_reg_1byte 0x36E2 0 ?s2)"
  have "extends_log z st ?s1" by (rule write2_unchecked [OF u(1)])
  then have "extends_log z st ?s2"
    by (rule extends_trans [OF _ write2_unchecked [OF u(2)]]) simp
  then have "extends_log z st ?s3"
    by (rule extends_trans [OF _ write1_unchecked [OF u(3)]]) simp
  then show ?thesis by (simp add: write_hdr_def Let_def extends_refl)
qed

lemma start_streaming_ext:
  assumes "imx586_start_streaming uninit st = Inr (ret, st')"
  shows "extends_log (ret = 0) st st'"
proof -
  obtain r1 s1 where w1: "write_common st = (r1, s1)" by (cases "write_common st")
  have e1: "extends_log (r1 = 0) st s1" using w1 by (rule write_common_ext)
  show ?thesis
  proof (cases "r1 = 0")
    case False
    then have "ret = r1" "st' = s1"
      using assms w1 by (simp_all add: imx586_start_streaming_def)
    then show ?thesis using e1 by simp
  next
    case r1: True
    obtain r2 s2 where w2: "imx586_write_regs (reg_list (mode s1)) s1 = (r2, s2)"
      by (cases "imx586_write_regs (reg_list (mode s1)) s1")
    have "extends_log (r2 = 0) s1 s2" using w2 by (rule write_regs_ext)
    with e1 have e2: "extends_log (r2 = 0) st s2" by (rule extends_trans) (simp add: r1)
    show ?thesis
    proof (cases "r2 = 0")
      case False
      then have "ret = r2" "st' = s2"
        using assms w1 w2 r1 by (simp_all add: imx586_start_streaming_def)
      then show ?thesis using e2 by simp
    next
      case r2: True
      let ?s5 = "snd (imx586_write_reg_1byte 0x3458 0 (write_hdr (write_ccmp s2)))"
      have "extends_log True s2 (write_ccmp s2)" by (rule write_ccmp_ext)
      then have "extends_log True s2 (write_hdr (write_ccmp s2))"
        by (rule extends_trans [OF _ write_hdr_ext]) simp
      then have "extends_log True s2 ?s5"
        by (rule extends_trans [OF _ write1_unchecked]) (simp_all add: unchecked_regs_def)
      with e2 have e5: "extends_log True st ?s5" by (rule extends_trans) (simp add: r2)
      have g: "bindF (v4l2_ctrl_handler_setup uninit ?s5) (\<lambda>(ret, st6).
                 if ret \<noteq> 0 then Inr (ret, st6)
                 else Inr (imx586_write_reg_1byte 0x3000 0 st6)) = Inr (ret, st')"
        using assms w1 w2 r1 r2 by (simp add: imx586_start_streaming_def Let_def)
      then obtain r6 s6 where w6: "v4l2_ctrl_handler_setup uninit ?s5 = Inr (r6, s6)"
        by (cases "v4l2_ctrl_handler_setup uninit ?s5") (auto simp add: bindF_def)
      then have f: "(if r6 \<noteq> 0 then Inr (r6, s6)
                 else Inr (imx586_write_reg_1byte 0x3000 0 s6)) = Inr (ret, st')"
        using g by (auto simp add: bindF_def split: if_splits)
      have "extends_log (r6 = 0) ?s5 s6"
        using w6 unfolding v4l2_ctrl_handler_setup_def by (rule ctrl_setup_loop_ext)
      with e5 have e6: "extends_log (r6 = 0) st s6" by (rule extends_trans) simp
      show ?thesis
      proof (cases "r6 = 0")
        case False
        then show ?thesis using f e6 by simp
      next
        case True
        then have "ret = fst (imx586_write_reg_1byte 0x3000 0 s6)"
          "st' = snd (imx586_write_reg_1byte 0x3000 0 s6)"
          using f by (simp_all add: prod_eq_iff)
        then show ?thesis
          using extends_trans [OF e6 write1_ext [of "0x3000" 0 s6]] True by simp
      qed
    qed
  qed
qed

subsection \<open>Runs of the start sequence\<close>

lemma len_common_regs: "length mode_common_regs = 242"
  by (simp add: mode_common_regs_def)

lemma start_streaming_split:
  assumes "write_common st = (0, s1)" and "common_regs_written s1"
  shows "imx586_start_streaming u st = imx586_start_streaming u s1"
proof -
  have "write_common s1 = (0, s1)" using assms(2) by (simp add: write_common_def)
  then show ?thesis using assms(1) by (simp add: imx586_start_streaming_def)
qed

lemma start_after_common:
  "imx586_start_streaming 0
     (probed_colour\<lparr>common_regs_written := True, pm_usage := 1, i2c_log := L\<rparr>) =
   Inr (0, probed_colour\<lparr>common_regs_written := True, pm_usage := 1,
             i2c_log := start_tail @ L\<rparr>)"
  by (simp add: imx586_start_streaming_def write_common_def
      write_regs_quiet write_ccmp_def write_hdr_def v4l2_ctrl_handler_setup_def
      imx586_set_ctrl_def imx586_set_ctrl_switch_def
      calculate_min_max_v4l2_cid_exposure_def calculate_v4l2_cid_exposure_def clamp_t_u32_def
      calculate_shr_def do_div_def bindF_def Let_def
      pm_runtime_get_if_in_use_def pm_runtime_put_def
      v4l2_ctrl_modify_range_def
      register_hold_eq write_reg_1byte_eq write_reg_2byte_eq write_reg_3byte_eq
      put_unaligned_be16_def start_tail_def probed_colour_def
      supported_modes_12bit_def)

lemma common_blk:
  "write_common (probed_colour\<lparr>i2c_script := replicate 242 None @ [Some e], pm_usage := 1\<rparr>) =
     (0, probed_colour\<lparr>common_regs_written := True, pm_usage := 1,
           i2c_log := [([0x30, 0xDC, 0x00, 0x00], e)] @ sent_regs mode_common_regs\<rparr>)"
proof -
  let ?st = "probed_colour\<lparr>i2c_script := replicate 242 None @ [Some e], pm_usage := 1\<rparr>"
  have a: "\<forall>r \<in> set (take (length mode_common_regs) (i2c_script ?st)). r = None"
    by (simp add: len_common_regs)
  have n: "\<not> common_regs_written ?st" "i2c_log ?st = []"
    by (simp_all add: probed_colour_def)
  show ?thesis
    using write_regs_ok [OF a] n
    by (simp add: write_common_def len_common_regs write_reg_2byte_eq sent_regs_def
        put_unaligned_be16_def probed_colour_def)
qed

lemma common_quiet:
  "write_common (probed_colour\<lparr>pm_usage := 1\<rparr>) =
     (0, probed_colour\<lparr>common_regs_written := True, pm_usage := 1,
           i2c_log := [([0x30, 0xDC, 0x00, 0x00], 4)] @ sent_regs mode_common_regs\<rparr>)"
  by (simp add: write_common_def write_regs_quiet write_reg_2byte_eq
      put_unaligned_be16_def probed_colour_def)

lemma start_from_common:
  assumes w: "write_common (st\<lparr>pm_usage := 1\<rparr>) =
                (0, probed_colour\<lparr>common_regs_written := True, pm_usage := 1,
                      i2c_log := [b] @ sent_regs mode_common_regs\<rparr>)"
    and n: "\<not> streaming st" and p: "pm_usage st = 0"
  shows "imx586_set_stream 0 0 1 st =
           Inr (0, probed_colour\<lparr>streaming := True, common_regs_written := True,
                     pm_usage := 1, vflip := (vflip probed_colour)\<lparr>grabbed := True\<rparr>,
                     i2c_log := start_tail @ [b] @ sent_regs mode_common_regs\<rparr>)"
proof -
  have c: "common_regs_written (probed_colour\<lparr>common_regs_written := True, pm_usage := 1,
             i2c_log := [b] @ sent_regs mode_common_regs\<rparr>)" by simp
  have g: "pm_runtime_get_sync 0 st = (0, st\<lparr>pm_usage := 1\<rparr>)"
    using p by (simp add: pm_runtime_get_sync_def)
  have r: "imx586_start_streaming 0 (st\<lparr>pm_usage := 1\<rparr>) =
           Inr (0, probed_colour\<lparr>common_regs_written := True, pm_usage := 1,
             i2c_log := start_tail @ [b] @ sent_regs mode_common_regs\<rparr>)"
    unfolding start_streaming_split [OF w c] start_after_common by (rule refl)
  show ?thesis
    using n r by (simp add: imx586_set_stream_def g bindF_def v4l2_ctrl_grab_def)
qed

lemma start_quiet: "imx586_set_stream 0 0 1 probed_colour = Inr (0, streaming_colour)"
proof -
  have n: "\<not> streaming probed_colour" "pm_usage probed_colour = 0"
    by (simp_all add: probed_colour_def)
  show ?thesis
    using start_from_common [OF common_quiet n]
    by (simp add: streaming_colour_def start_messages_def)
qed

lemma start_blk_fail:
  "imx586_set_stream 0 0 1 blk_fail_colour =
     Inr (0, streaming_colour\<lparr>i2c_log := start_messages (- EIO)\<rparr>)"
proof -
  have n: "\<not> streaming blk_fail_colour" "pm_usage blk_fail_colour = 0"
    by (simp_all add: blk_fail_colour_def probed_colour_def)
  have "write_common (blk_fail_colour\<lparr>pm_usage := 1\<rparr>) =
     (0, probed_colour\<lparr>common_regs_written := True, pm_usage := 1,
           i2c_log := [([0x30, 0xDC, 0x00, 0x00], - EIO)] @ sent_regs mode_common_regs\<rparr>)"
    using common_blk [of "- EIO"] by (simp add: blk_fail_colour_def)
  from start_from_common [OF this n] show ?thesis
    by (simp add: streaming_colour_def start_messages_def)
qed

lemma start_first_fail:
  "imx586_set_stream 0 0 1 first_fail_colour =
     Inr (- EIO, probed_colour\<lparr>i2c_log := [([0x30, 0x02, 0x01], - EIO)]\<rparr>)"
  by (simp add: imx586_set_stream_def imx586_start_streaming_def write_common_def
      mode_common_regs_def write_reg_1byte_eq bindF_def
      pm_runtime_get_sync_def pm_runtime_put_def put_unaligned_be16_def
      first_fail_colour_def probed_colour_def)

subsection \<open>The start returns\<close>

lemma ready_write1: "start_ready (snd (imx586_write_reg_1byte reg v st)) = start_ready st"
  by (simp add: write_reg_1byte_eq start_ready_def)

lemma ready_write2: "start_ready (snd (imx586_write_reg_2byte reg v st)) = start_ready st"
  by (simp add: write_reg_2byte_eq start_ready_def)

lemma ready_write3: "start_ready (snd (imx586_write_reg_3byte reg v st)) = start_ready st"
  by (simp add: write_reg_3byte_eq start_ready_def)

lemma ready_hold: "start_ready (imx586_register_hold h st) = start_ready st"
  by (simp add: imx586_register_hold_def ready_write1)

lemma ready_write_regs: "start_ready (snd (imx586_write_regs regs st)) = start_ready st"
proof (induction regs arbitrary: st)
  case Nil
  show ?case by simp
next
  case (Cons x regs)
  obtain a v where x: "x = (a, v)" by (cases x)
  obtain r s1 where w: "imx586_write_reg_1byte a v st = (r, s1)"
    by (cases "imx586_write_reg_1byte a v st")
  have s1: "start_ready s1 = start_ready st" using ready_write1 [of a v st] w by simp
  show ?case using Cons.IH [of s1] s1 by (simp add: x w)
qed

lemma calc_shr_total:
  fixes h :: u16
  assumes "h \<noteq> 0"
  shows "\<exists>s. calculate_shr e (ucast h) vm svr off = Inr s"
proof -
  have "unat h \<noteq> 0" using assms by (simp add: unat_eq_0)
  moreover have "unat h < 2 ^ 16" using unsigned_less [of h] by simp
  ultimately have "unat (ucast h :: u32) \<noteq> 0"
    by (simp add: unsigned_ucast_eq take_bit_nat_eq_self)
  then have a: "(ucast h :: u32) \<noteq> 0" by (simp add: unat_eq_0)
  let ?x = "ucast h :: u32"
  have "unat ?x < 2 ^ 32" using unsigned_less [of ?x] by simp
  then have "unat (ucast ?x :: u64) < 2 ^ 32" by (simp add: unat_ucast_u32_u64)
  then have "unat (ucast (ucast ?x :: u64) :: u32) = unat ?x"
    by (simp add: unat_ucast_u64_u32 unat_ucast_u32_u64)
  then have "(ucast (ucast ?x :: u64) :: u32) = ?x" by (simp add: word_unat_eq_iff)
  then show ?thesis
    using a by (simp add: calculate_shr_def do_div_total bindF_def)
qed

lemma hblank_switch_total:
  assumes r: "start_ready st" and v: "0 \<le> sint v" "sint v \<le> 0xFFFF"
  shows "\<exists>ret st'. imx586_set_ctrl_switch V4L2_CID_HBLANK v st = Inr (ret, st') \<and>
           start_ready st'"
proof -
  have m: "mode st \<in> set mode_catalog" using r by (simp add: start_ready_def)
  let ?w = "width (mode st)" and ?mh = "min_HMAX (mode st)"
  have c1: "0 < unat ?mh" and c2: "unat ?mh < 2 ^ 32"
    and c3: "0 < unat ?w * 74250000 div unat ?mh"
    and c4: "unat ?w * 74250000 div unat ?mh < 2 ^ 32"
    and c5: "unat ?w \<le> 65535"
    and c6: "(unat ?w + 65535) * 74250000 div (unat ?w * 74250000 div unat ?mh) < 65536"
    using catalog_line [OF m] by auto
  have v': "sint v \<le> 65535" using v(2) by simp
  obtain pr hm where d1: "do_div (ucast ?w * 74250000) ?mh = Inr pr"
    and d2: "do_div (ucast (?w + v) * 74250000) pr = Inr hm"
    and u: "unat (ucast hm :: u16) =
              (unat ?w + nat (sint v)) * 74250000 div (unat ?w * 74250000 div unat ?mh)"
    using hblank_hmax_nat [OF c1 c2 c3 c4 v(1) v' c5 c6] by blast
  define P where "P = unat ?w * 74250000 div unat ?mh"
  have "P \<le> unat ?w * 74250000" unfolding P_def by (rule div_le_dividend)
  then have "P \<le> (unat ?w + nat (sint v)) * 74250000" by simp
  moreover have "0 < P" using c3 by (simp add: P_def)
  ultimately have "0 < (unat ?w + nat (sint v)) * 74250000 div P"
    by (simp add: div_greater_zero_iff)
  then have "unat (ucast hm :: u16) \<noteq> 0" using u by (simp add: P_def)
  then have nz: "(ucast hm :: u16) \<noteq> 0" by (simp add: unat_eq_0)
  show ?thesis
    using d1 d2 nz r
    by (simp add: imx586_set_ctrl_switch_def bindF_def Let_def write_reg_2byte_eq
        start_ready_def)
qed

lemma set_ctrl_switch_total:
  assumes r: "start_ready st" and v: "cid = V4L2_CID_HBLANK \<Longrightarrow> 0 \<le> sint v \<and> sint v \<le> 0xFFFF"
  shows "\<exists>ret st'. imx586_set_ctrl_switch cid v st = Inr (ret, st') \<and> start_ready st'"
proof (cases cid)
  case V4L2_CID_HBLANK
  then show ?thesis using hblank_switch_total [OF r] v by simp
next
  case V4L2_CID_EXPOSURE
  have h: "HMAX st \<noteq> 0" using r by (simp add: start_ready_def)
  obtain s where "calculate_shr v (ucast (HMAX st)) (ucast (VMAX st)) 0 209 = Inr s"
    using calc_shr_total [OF h] by blast
  then show ?thesis
    using r V4L2_CID_EXPOSURE
    by (simp add: imx586_set_ctrl_switch_def bindF_def Let_def write_reg_2byte_eq
        start_ready_def)
next
  case V4L2_CID_ANALOGUE_GAIN
  have "start_ready (imx586_register_hold False (snd (imx586_write_reg_1byte a b
          (snd (imx586_write_reg_2byte c d (imx586_register_hold True st))))))" for a b c d
    using r by (simp add: ready_hold ready_write1 ready_write2)
  then show ?thesis
    using V4L2_CID_ANALOGUE_GAIN by (simp add: set_ctrl_switch_gain Let_def)
next
  case V4L2_CID_VBLANK
  then show ?thesis
    using r by (simp add: imx586_set_ctrl_switch_def Let_def write_reg_3byte_eq start_ready_def)
next
  case V4L2_CID_HFLIP
  then show ?thesis
    using r by (simp add: imx586_set_ctrl_switch_def Let_def write_reg_1byte_eq start_ready_def)
next
  case V4L2_CID_VFLIP
  then show ?thesis
    using r by (simp add: imx586_set_ctrl_switch_def Let_def write_reg_1byte_eq start_ready_def)
next
  case V4L2_CID_PIXEL_RATE
  then show ?thesis using r by (simp add: imx586_set_ctrl_switch_def Let_def)
next
  case (V4L2_CID_OTHER n)
  then show ?thesis using r by (simp add: imx586_set_ctrl_switch_def Let_def)
qed

lemma set_ctrl_tail_total:
  assumes r: "start_ready st2" and v: "cid = V4L2_CID_HBLANK \<Longrightarrow> 0 \<le> sint v \<and> sint v \<le> 0xFFFF"
  shows "\<exists>ret st'. (let (in_use, st3) = pm_runtime_get_if_in_use st2
            in if in_use = 0 then Inr (0, st2)
               else bindF (imx586_set_ctrl_switch cid v st3)
                      (\<lambda>(ret, st4). Inr (ret, pm_runtime_put st4))) = Inr (ret, st') \<and>
           start_ready st'"
proof (cases "0 < pm_usage st2")
  case False
  then show ?thesis using r by (simp add: pm_runtime_get_if_in_use_def)
next
  case True
  let ?st3 = "st2\<lparr>pm_usage := pm_usage st2 + 1\<rparr>"
  have "start_ready ?st3" using r by (simp add: start_ready_def)
  then obtain ret st4 where s: "imx586_set_ctrl_switch cid v ?st3 = Inr (ret, st4)"
    and r4: "start_ready st4"
    using set_ctrl_switch_total [of ?st3 cid v] v by blast
  have "start_ready (pm_runtime_put st4)" using r4 by (simp add: start_ready_def pm_runtime_put_def)
  then show ?thesis
    using True s by (simp add: pm_runtime_get_if_in_use_def bindF_def)
qed

lemma set_ctrl_total:
  assumes r: "start_ready st" and v: "cid = V4L2_CID_HBLANK \<Longrightarrow> 0 \<le> sint v \<and> sint v \<le> 0xFFFF"
  shows "\<exists>ret st'. imx586_set_ctrl uninit cid v st = Inr (ret, st') \<and> start_ready st'"
proof (cases "cid = V4L2_CID_VBLANK")
  case False
  then show ?thesis
    using set_ctrl_tail_total [OF r v] by (simp add: imx586_set_ctrl_def bindF_def)
next
  case True
  have h: "HMAX st \<noteq> 0" using r by (simp add: start_ready_def)
  let ?st1 = "st\<lparr>VMAX := ucast ((ucast (height (mode st)) :: u64) + scast v)\<rparr>"
  obtain mn mx where c: "calculate_min_max_v4l2_cid_exposure (ucast (HMAX st))
      (ucast (VMAX ?st1)) (min_SHR (mode st)) 0 209 = Inr (mn, mx)"
    using calc_min_max_total [OF hmax_field_nonzero [OF h]] by blast
  let ?st2 = "st\<lparr>VMAX := ucast ((ucast (height (mode st)) :: u64) + scast v),
      exposure := v4l2_ctrl_modify_range (exposure st) mn mx 1
                    (ucast (clamp_t_u32 uninit mn mx))\<rparr>"
  have r2: "start_ready ?st2" using r by (simp add: start_ready_def)
  show ?thesis
    using set_ctrl_tail_total [of ?st2 V4L2_CID_VBLANK v, OF r2] True c
    by (simp add: imx586_set_ctrl_def bindF_def Let_def)
qed

lemma ctrl_setup_loop_total:
  "start_ready st \<Longrightarrow>
   \<exists>ret st'. ctrl_setup_loop uninit cids st = Inr (ret, st') \<and> start_ready st'"
proof (induction cids arbitrary: st)
  case Nil
  then show ?case by simp
next
  case (Cons cid cids)
  show ?case
  proof (cases "ctrl_of cid st")
    case None
    then show ?thesis using Cons.IH [OF Cons.prems] by simp
  next
    case (Some c)
    have v: "cid = V4L2_CID_HBLANK \<Longrightarrow> 0 \<le> sint (val c) \<and> sint (val c) \<le> 0xFFFF"
      using Some Cons.prems by (auto simp add: start_ready_def)
    obtain ret s1 where a: "imx586_set_ctrl uninit cid (val c) st = Inr (ret, s1)"
      and r1: "start_ready s1"
      using set_ctrl_total [OF Cons.prems v] by blast
    show ?thesis
    proof (cases "ret = 0")
      case True
      then show ?thesis using Cons.IH [OF r1] Some a by (simp add: bindF_def)
    next
      case False
      then show ?thesis using r1 Some a by (simp add: bindF_def)
    qed
  qed
qed

lemma ready_write_common: "start_ready (snd (write_common st)) = start_ready st"
proof (cases "common_regs_written st")
  case True
  then show ?thesis by (simp add: write_common_def)
next
  case False
  obtain r1 s1 where w: "imx586_write_regs mode_common_regs st = (r1, s1)"
    by (cases "imx586_write_regs mode_common_regs st")
  have s1: "start_ready s1 = start_ready st" using ready_write_regs [of mode_common_regs st] w by simp
  have "start_ready ((snd (imx586_write_reg_2byte a b s1))\<lparr>common_regs_written := True\<rparr>) =
        start_ready s1" for a b
    using ready_write2 [of a b s1] by (simp add: start_ready_def)
  then show ?thesis using False w s1 by (simp add: write_common_def)
qed

lemma ready_write_ccmp: "start_ready (write_ccmp st) = start_ready st"
  by (simp add: write_ccmp_def Let_def ready_write1 ready_write3 write_reg_1byte_eq
      write_reg_3byte_eq start_ready_def)

lemma ready_write_hdr: "start_ready (write_hdr st) = start_ready st"
  by (simp add: write_hdr_def Let_def write_reg_1byte_eq write_reg_2byte_eq start_ready_def)

lemma start_streaming_total:
  assumes r: "start_ready st"
  shows "\<exists>ret st'. imx586_start_streaming uninit st = Inr (ret, st')"
proof -
  obtain r1 s1 where w1: "write_common st = (r1, s1)" by (cases "write_common st")
  have q1: "start_ready s1" using ready_write_common [of st] w1 r by simp
  show ?thesis
  proof (cases "r1 = 0")
    case False
    then show ?thesis using w1 by (simp add: imx586_start_streaming_def)
  next
    case True
    obtain r2 s2 where w2: "imx586_write_regs (reg_list (mode s1)) s1 = (r2, s2)"
      by (cases "imx586_write_regs (reg_list (mode s1)) s1")
    have q2: "start_ready s2" using ready_write_regs [of "reg_list (mode s1)" s1] w2 q1 by simp
    show ?thesis
    proof (cases "r2 = 0")
      case False
      then show ?thesis using w1 w2 True by (simp add: imx586_start_streaming_def)
    next
      case r20: True
      let ?s5 = "snd (imx586_write_reg_1byte 0x3458 0 (write_hdr (write_ccmp s2)))"
      have q5: "start_ready ?s5"
        using q2 by (simp add: ready_write1 ready_write_hdr ready_write_ccmp)
      obtain r6 s6 where h: "v4l2_ctrl_handler_setup uninit ?s5 = Inr (r6, s6)"
        using ctrl_setup_loop_total [OF q5] unfolding v4l2_ctrl_handler_setup_def by blast
      obtain r7 s7 where w7: "imx586_write_reg_1byte 0x3000 0 s6 = (r7, s7)"
        by (cases "imx586_write_reg_1byte 0x3000 0 s6")
      show ?thesis
        using w1 w2 True r20 h w7
        by (cases "r6 = 0") (simp_all add: imx586_start_streaming_def Let_def bindF_def)
    qed
  qed
qed

lemma set_stream_total:
  assumes r: "start_ready st"
  shows "\<exists>ret st'. imx586_set_stream uninit pm_ret en st = Inr (ret, st')"
proof -
  let ?s1 = "st\<lparr>pm_usage := pm_usage st + 1\<rparr>"
  have "start_ready ?s1" using r by (simp add: start_ready_def)
  then obtain r2 s2 where a: "imx586_start_streaming uninit ?s1 = Inr (r2, s2)"
    using start_streaming_total by blast
  show ?thesis
    using a by (auto simp add: imx586_set_stream_def pm_runtime_get_sync_def bindF_def Let_def)
qed

lemma set_stream_checked:
  assumes s: "\<not> streaming st"
    and r: "imx586_set_stream uninit pm_ret 1 st = Inr (ret, st')"
  shows "(ret \<noteq> 0 \<longrightarrow> \<not> streaming st') \<and> (ret = 0 \<longrightarrow> streaming st') \<and>
         (\<exists>new. i2c_log st' = new @ i2c_log st \<and> (list_ex aborting_failure new \<longrightarrow> ret \<noteq> 0))"
proof (cases "pm_ret < 0")
  case True
  then have "ret = pm_ret" "st' = pm_runtime_put (st\<lparr>pm_usage := pm_usage st + 1\<rparr>)"
    using s r by (simp_all add: imx586_set_stream_def pm_runtime_get_sync_def)
  then show ?thesis using True s by (simp add: pm_runtime_put_def)
next
  case False
  let ?s1 = "st\<lparr>pm_usage := pm_usage st + 1\<rparr>"
  obtain s2 where a: "imx586_start_streaming uninit ?s1 = Inr (ret, s2)"
    and b: "st' = (if ret \<noteq> 0 then pm_runtime_put s2
                   else s2\<lparr>streaming := True, vflip := v4l2_ctrl_grab (vflip s2) True\<rparr>)"
    using s r False
    by (auto simp add: imx586_set_stream_def pm_runtime_get_sync_def bindF_def
        split: sum.splits if_splits)
  have "extends_log (ret = 0) ?s1 s2" using a by (rule start_streaming_ext)
  then obtain new where n: "i2c_log s2 = new @ i2c_log st" "streaming s2 = streaming st"
    "ret = 0 \<longrightarrow> \<not> list_ex aborting_failure new"
    by (auto simp add: extends_log_def)
  have "i2c_log st' = new @ i2c_log st" using b n(1) by (simp add: pm_runtime_put_def)
  moreover have "ret \<noteq> 0 \<longrightarrow> \<not> streaming st'" using b n(2) s by (simp add: pm_runtime_put_def)
  moreover have "ret = 0 \<longrightarrow> streaming st'" using b by simp
  ultimately show ?thesis using n(3) by blast
qed

section \<open>Format resolver: the claims\<close>

text \<open>C10. The lookup of a format code is total only on the table that applies (\<open>codes\<close>
  for a colour sensor, \<open>mono_codes\<close> for a monochrome one): a code of the table yields an
  element of the table; for any other code the search ends with the index equal to the
  length of the table and the function reads the element one past the end, where an error
  would be due.\<close>

theorem get_format_code_lookup:
  "(rq \<in> set (if mono_dev st then mono_codes else codes) \<longrightarrow>
      (\<exists>c. imx586_get_format_code st rq = Inr c \<and>
           c \<in> set (if mono_dev st then mono_codes else codes))) \<and>
   (rq \<notin> set (if mono_dev st then mono_codes else codes) \<longrightarrow>
      code_index (if mono_dev st then mono_codes else codes) rq =
        length (if mono_dev st then mono_codes else codes) \<and>
      imx586_get_format_code st rq =
        Inl (OutOfBounds (length (if mono_dev st then mono_codes else codes))))"
proof (intro conjI impI)
  let ?t = "if mono_dev st then mono_codes else codes"
  assume "rq \<in> set ?t"
  then have "code_index ?t rq < length ?t" "?t ! code_index ?t rq = rq"
    using code_index_in [of rq ?t] by simp_all
  then have "imx586_get_format_code st rq = Inr rq"
    by (simp add: imx586_get_format_code_def Let_def)
  with \<open>rq \<in> set ?t\<close>
  show "\<exists>c. imx586_get_format_code st rq = Inr c \<and> c \<in> set ?t" by simp
next
  let ?t = "if mono_dev st then mono_codes else codes"
  assume "rq \<notin> set ?t"
  then show "code_index ?t rq = length ?t" by (rule code_index_notin)
next
  let ?t = "if mono_dev st then mono_codes else codes"
  assume "rq \<notin> set ?t"
  then have "code_index ?t rq = length ?t" by (rule code_index_notin)
  then show "imx586_get_format_code st rq = Inl (OutOfBounds (length ?t))"
    by (simp add: imx586_get_format_code_def Let_def)
qed

theorem get_format_code_lookup_witness:
  "imx586_get_format_code (imx586_alloc False []) MEDIA_BUS_FMT_SGBRG12_1X12
     \<in> Inr ` set codes \<and>
   imx586_get_format_code (imx586_alloc False []) MEDIA_BUS_FMT_Y12_1X12 = Inl (OutOfBounds 8) \<and>
   imx586_get_format_code (imx586_alloc True []) MEDIA_BUS_FMT_Y12_1X12
     \<in> Inr ` set mono_codes \<and>
   imx586_get_format_code (imx586_alloc True []) MEDIA_BUS_FMT_SGBRG12_1X12 = Inl (OutOfBounds 2)"
proof -
  have m: "\<not> mono_dev (imx586_alloc False [])" "mono_dev (imx586_alloc True [])"
    by (simp_all add: imx586_alloc_def Let_def)
  have a: "MEDIA_BUS_FMT_SGBRG12_1X12 \<in> set codes" "MEDIA_BUS_FMT_Y12_1X12 \<notin> set codes"
    "MEDIA_BUS_FMT_Y12_1X12 \<in> set mono_codes" "MEDIA_BUS_FMT_SGBRG12_1X12 \<notin> set mono_codes"
    by (simp_all add: codes_def mono_codes_def media_bus_fmt_defs)
  have l: "length codes = 8" "length mono_codes = 2"
    by (simp_all add: codes_def mono_codes_def)
  show ?thesis
    using get_format_code_lookup [of MEDIA_BUS_FMT_SGBRG12_1X12 "imx586_alloc False []"]
      get_format_code_lookup [of MEDIA_BUS_FMT_Y12_1X12 "imx586_alloc False []"]
      get_format_code_lookup [of MEDIA_BUS_FMT_Y12_1X12 "imx586_alloc True []"]
      get_format_code_lookup [of MEDIA_BUS_FMT_SGBRG12_1X12 "imx586_alloc True []"]
      m a l
    by auto
qed

text \<open>C3. The claim: the resolver returns the member of the requested code's quadruplet
  that the flip controls select. The code: with the horizontal flip on, a request for
  \<open>SRGGB12\<close> (entry 4 of \<open>codes\<close>) is answered with \<open>SRGGB12\<close> itself, not with the
  h-flip entry 5, \<open>SGRBG12\<close>; no flip control is read.\<close>

theorem get_format_code_ignores_flip:
  "val (hflip hflipped_colour) = 1 \<and>
   imx586_get_format_code hflipped_colour (codes ! 4) = Inr (codes ! 4) \<and>
   codes ! 4 = MEDIA_BUS_FMT_SRGGB12_1X12 \<and> codes ! 5 = MEDIA_BUS_FMT_SGRBG12_1X12 \<and>
   codes ! 4 \<noteq> codes ! 5"
  by (simp add: hflipped_colour_def probed_colour_def imx586_get_format_code_def codes_def
      media_bus_fmt_defs)

text \<open>C4. The claim: a request for a code outside the capability of the device fails with
  an error and commits nothing. The code: on a colour sensor a request for \<open>Y12\<close> makes
  \<open>imx586_set_pad_format\<close> read \<open>codes[8]\<close>, past the end of the table; no error code is
  returned.\<close>

theorem set_pad_format_unsupported_code:
  "imx586_set_pad_format 0 probed_colour blank_subdev_state y12_request = Inl (OutOfBounds 8)"
  by (simp add: imx586_set_pad_format_def y12_request_def blank_framefmt_def
      probed_colour_def imx586_get_format_code_def codes_def media_bus_fmt_defs bindF_def)

text \<open>The sibling operation \<open>imx586_enum_frame_size\<close> rejects the same code with
  \<open>-EINVAL\<close>.\<close>

lemma enum_frame_size_unsupported_code:
  "imx586_enum_frame_size probed_colour y12_frame_size_enum = Inr (- 22, y12_frame_size_enum)"
  by (simp add: imx586_enum_frame_size_def y12_frame_size_enum_def probed_colour_def
      get_mode_table_def media_bus_fmt_defs)



section \<open>Timing calculator: the claims\<close>

text \<open>C5. The claim: for a line length \<open>hmax > 0\<close>, a frame length \<open>vmax\<close> and an
  integration hold \<open>shr\<close> up to \<open>min(0xFFFF, vmax - 4)\<close>, the exposure computed from \<open>shr\<close>
  gives \<open>shr\<close> back through \<open>calculate_shr\<close> (\<open>svr = 0\<close>, \<open>offset = 209\<close>). The code: at
  \<open>hmax = 550\<close>, \<open>vmax = 2250\<close>, \<open>shr = 20\<close> the exposure is 2230 and the register value
  computed back from it is 21.\<close>

theorem shr_round_trip_counterexample:
  "calculate_v4l2_cid_exposure 550 2250 20 0 209 = Inr 2230 \<and>
   calculate_shr 2230 550 2250 0 209 = Inr 21 \<and> (21 :: u32) \<noteq> 20"
  by (simp add: calculate_v4l2_cid_exposure_def calculate_shr_def do_div_def clamp_t_u32_def
      bindF_def)

text \<open>C5 as amended: within the range of the registers (\<open>hmax\<close> up to 0xFFFF, \<open>vmax\<close> from 4
  to 0xFFFFF) the round trip returns \<open>shr\<close> when \<open>hmax\<close> divides the offset 209, and
  \<open>shr + 1\<close> otherwise: each of the two divisions rounds down.\<close>

theorem shr_round_trip:
  fixes hmax vmax shr :: u64
  assumes h0: "0 < hmax" and h1: "hmax \<le> 0xFFFF"
    and v0: "4 \<le> vmax" and v1: "vmax \<le> 0xFFFFF"
    and s1: "shr \<le> min 0xFFFF (vmax * (0 + 1) - 4)"
  shows "\<exists>e. calculate_v4l2_cid_exposure hmax vmax shr 0 209 = Inr e \<and>
             calculate_shr (ucast e) (ucast hmax) vmax 0 209 =
               Inr (ucast shr + (if unat hmax dvd 209 then 0 else 1))"
proof -
  let ?H = "unat hmax" and ?V = "unat vmax" and ?S = "unat shr"
  have H: "0 < ?H" "?H \<le> 65535"
    using h0 h1 by (simp_all add: word_less_nat_alt word_le_nat_alt)
  have V: "4 \<le> ?V" "?V \<le> 1048575"
    using v0 v1 by (simp_all add: word_le_nat_alt)
  have s2: "shr \<le> 0xFFFF" "shr \<le> vmax - 4" using s1 by simp_all
  have "unat (vmax - 4) = ?V - 4" using v0 by (simp add: unat_sub)
  then have S: "?S \<le> 65535" "?S + 4 \<le> ?V"
    using s2 V by (simp_all add: word_le_nat_alt)
  let ?a = "?V - ?S"
  have a: "1 \<le> ?a" "?a \<le> 1048575" using S V by simp_all
  have aH: "?a * ?H \<le> 1048575 * 65535" using a H by (intro mult_mono) simp_all
  have qd: "(?a * ?H + 209) div ?H = ?a + 209 div ?H" using H by simp
  have "209 div ?H \<le> 209" by (rule div_le_dividend)
  then have qb: "(?a * ?H + 209) div ?H \<le> 1048784" using a unfolding qd by linarith
  obtain e where e: "calculate_v4l2_cid_exposure hmax vmax shr 0 209 = Inr e"
    and ue: "unat e = (?a * ?H + 209) div ?H"
    using calc_exposure_nat [of hmax shr vmax 209] H S aH qb by auto
  let ?e = "ucast e :: u32" and ?h = "ucast hmax :: u32"
  have ue32: "unat ?e = (?a * ?H + 209) div ?H"
    using ue qb by (simp add: unat_ucast_u64_u32)
  have uh32: "unat ?h = ?H" using H by (simp add: unat_ucast_u64_u32)
  have t: "(unat ?e * unat ?h - 209) div unat ?h = ?a - (if ?H dvd 209 then 0 else 1)"
    and t0: "209 \<le> unat ?e * unat ?h"
    using nat_round_trip [of ?H ?a] H a by (simp_all add: ue32 uh32)
  have r: "?V - (?a - (if ?H dvd 209 then 0 else 1)) = ?S + (if ?H dvd 209 then 0 else 1)"
    using S a by auto
  have p1: "0 < unat ?h" using H uh32 by simp
  have p3: "(unat ?e * unat ?h - 209) div unat ?h \<le> ?V" unfolding t by simp
  have "?V - (unat ?e * unat ?h - 209) div unat ?h \<le> ?V" by simp
  then have p4: "?V - (unat ?e * unat ?h - 209) div unat ?h < 2 ^ 32" using V by simp
  obtain s where s: "calculate_shr ?e ?h vmax 0 209 = Inr s"
    and us: "unat s = ?V - (unat ?e * unat ?h - 209) div unat ?h"
    using calc_shr_nat [OF p1 t0 p3 p4] by blast
  have us': "unat s = ?S + (if ?H dvd 209 then 0 else 1)" using us t r by simp
  have u1: "unat (ucast shr :: u32) = ?S" using S by (simp add: unat_ucast_u64_u32)
  have "unat ((ucast shr :: u32) + (if ?H dvd 209 then 0 else 1)) =
          ?S + (if ?H dvd 209 then 0 else 1)"
    using u1 S by (simp add: unat_add_lem [THEN iffD1])
  then have "s = ucast shr + (if ?H dvd 209 then 0 else 1)"
    using us' by (simp add: word_unat_eq_iff)
  with e s show ?thesis by simp
qed

theorem shr_round_trip_witness:
  "calculate_v4l2_cid_exposure 11 2250 20 0 209 = Inr 2249 \<and>
   calculate_shr 2249 11 2250 0 209 = Inr 20 \<and>
   calculate_v4l2_cid_exposure 550 2250 20 0 209 = Inr 2230 \<and>
   calculate_shr 2230 550 2250 0 209 = Inr 21"
proof -
  have a: "(0 :: u64) < 11" "(11 :: u64) \<le> 0xFFFF" "(0 :: u64) < 550" "(550 :: u64) \<le> 0xFFFF"
    "(4 :: u64) \<le> 2250" "(2250 :: u64) \<le> 0xFFFFF"
    "(20 :: u64) \<le> min 0xFFFF (2250 * (0 + 1) - 4)"
    by simp_all
  have e: "calculate_v4l2_cid_exposure 11 2250 20 0 209 = Inr 2249"
    "calculate_v4l2_cid_exposure 550 2250 20 0 209 = Inr 2230"
    by (simp_all add: calculate_v4l2_cid_exposure_def do_div_def clamp_t_u32_def bindF_def)
  show ?thesis
    using shr_round_trip [OF a(1) a(2) a(5) a(6) a(7)] shr_round_trip [OF a(3) a(4) a(5) a(6) a(7)] e
    by simp
qed

text \<open>C8. For every mode of the catalog and every blanking that is admissible for it
  (\<open>VMAX\<close> at least the mode's \<open>min_VMAX\<close>, \<open>HMAX\<close> at least its \<open>min_HMAX\<close>; \<open>HMAX\<close> is
  a 16-bit and \<open>VMAX\<close> a 32-bit field of the device), the bounds of the exposure are
  computed and the lower one is not above the upper one.\<close>

theorem exposure_bounds_ordered:
  fixes hmax :: u16 and vmax :: u32
  assumes m: "m \<in> set mode_catalog"
    and v: "min_VMAX m \<le> ucast vmax" and h: "min_HMAX m \<le> ucast hmax"
  shows "\<exists>mn mx. calculate_min_max_v4l2_cid_exposure (ucast hmax) (ucast vmax) (min_SHR m) 0 209 =
                   Inr (mn, mx) \<and> mn \<le> mx"
proof -
  have c: "min_SHR m = 20" "366 \<le> unat (min_HMAX m)" "2250 \<le> unat (min_VMAX m)"
    using catalog_bounds [OF m] by simp_all
  have H: "209 < unat hmax"
    using h c(2) by (simp add: word_le_nat_alt unat_ucast_u16_u64)
  have V: "24 \<le> unat vmax"
    using v c(3) by (simp add: word_le_nat_alt unat_ucast_u32_u64)
  obtain mn mx where r: "calculate_min_max_v4l2_cid_exposure (ucast hmax) (ucast vmax) 20 0 209 =
      Inr (mn, mx)"
    and mn: "unat mn = unat vmax - min (unat vmax - 4) 65535"
    and mx: "unat mx = unat vmax - 20"
    using exposure_bounds_nat [OF H V] by blast
  have "unat mn \<le> unat mx" using mn mx V by simp
  then have "mn \<le> mx" by (simp add: word_le_nat_alt)
  with r c(1) show ?thesis by simp
qed

theorem exposure_bounds_ordered_witness:
  "calculate_min_max_v4l2_cid_exposure 550 2250 20 0 209 = Inr (4, 2230) \<and> (4 :: u64) \<le> 2230"
proof -
  have m: "supported_modes_12bit ! 0 \<in> set mode_catalog"
    by (simp add: mode_catalog_def supported_modes_12bit_def)
  have v: "min_VMAX (supported_modes_12bit ! 0) \<le> ucast (2250 :: u32)"
    and h: "min_HMAX (supported_modes_12bit ! 0) \<le> ucast (550 :: u16)"
    by (simp_all add: supported_modes_12bit_def)
  have e: "calculate_min_max_v4l2_cid_exposure 550 2250 20 0 209 = Inr (4, 2230)"
    by (simp add: calculate_min_max_v4l2_cid_exposure_def calculate_v4l2_cid_exposure_def
        do_div_def clamp_t_u32_def bindF_def Let_def)
  show ?thesis
    using exposure_bounds_ordered [OF m v h] e by (simp add: supported_modes_12bit_def)
qed

section \<open>Gain stage selector: the claim\<close>

text \<open>C7. For every requested gain in the range [0, 240] of the control: in an HDR mode the
  stage is LCG and the register gain is the requested gain; otherwise, from the threshold 80
  on, the stage is HCG and the register gain is \<open>max (requested - 51) 34\<close>; below the
  threshold the stage is LCG and the register gain is the requested gain. While the device
  is in use the handler sends exactly four messages: register hold on (0x3001), the gain
  (two bytes, low byte first, to 0x306C), the stage (to 0x3030), register hold off. The log
  holds the newest message first.\<close>

theorem gain_stage_selection:
  assumes g: "0 \<le> sint v" "sint v \<le> 240" and p: "0 < pm_usage st"
  shows "\<exists>r st'. imx586_set_ctrl uninit V4L2_CID_ANALOGUE_GAIN v st = Inr (r, st') \<and>
           map fst (take 4 (i2c_log st')) =
             [[0x30, 0x01, 0x00],
              [0x30, 0x30, if snd (spec_gain_select (hdr (mode st)) (sint v)) then 1 else 0],
              [0x30, 0x6C, word_of_int (fst (spec_gain_select (hdr (mode st)) (sint v))), 0],
              [0x30, 0x01, 0x01]] \<and>
           drop 4 (i2c_log st') = i2c_log st"
proof -
  define gn where "gn = fst (spec_gain_select (hdr (mode st)) (sint v))"
  define hc where "hc = snd (spec_gain_select (hdr (mode st)) (sint v))"
  have b: "0 \<le> gn" "gn < 256" using g by (auto simp add: gn_def spec_gain_select_def)
  have sw: "imx586_set_ctrl_switch V4L2_CID_ANALOGUE_GAIN v st0 =
     (let st1 = imx586_register_hold True st0;
          st2 = snd (imx586_write_reg_2byte 0x306C (word_of_int gn) st1);
          r3 = imx586_write_reg_1byte 0x3030 (if hc then 1 else 0) st2
      in Inr (fst r3, imx586_register_hold False (snd r3)))" if "mode st0 = mode st" for st0
    using that by (simp add: set_ctrl_switch_gain gn_def hc_def Let_def)
  show ?thesis
    unfolding gn_def [symmetric] hc_def [symmetric]
    using p word_of_int_bytes [OF b]
    by (simp add: imx586_set_ctrl_def sw bindF_def pm_runtime_get_if_in_use_def
        pm_runtime_put_def register_hold_eq write_reg_1byte_eq write_reg_2byte_eq
        put_unaligned_be16_def Let_def)
qed

theorem gain_stage_selection_witness:
  "(\<exists>r st'. imx586_set_ctrl 0 V4L2_CID_ANALOGUE_GAIN 82 (probed_colour\<lparr>pm_usage := 1\<rparr>) =
             Inr (r, st') \<and>
           map fst (take 4 (i2c_log st')) =
             [[0x30, 0x01, 0x00], [0x30, 0x30, 1], [0x30, 0x6C, 34, 0], [0x30, 0x01, 0x01]]) \<and>
   (\<exists>r st'. imx586_set_ctrl 0 V4L2_CID_ANALOGUE_GAIN 79 (probed_colour\<lparr>pm_usage := 1\<rparr>) =
             Inr (r, st') \<and>
           map fst (take 4 (i2c_log st')) =
             [[0x30, 0x01, 0x00], [0x30, 0x30, 0], [0x30, 0x6C, 79, 0], [0x30, 0x01, 0x01]]) \<and>
   (\<exists>r st'. imx586_set_ctrl 0 V4L2_CID_ANALOGUE_GAIN 240
               (probed_colour\<lparr>mode := supported_modes_16bit ! 1, pm_usage := 1\<rparr>) =
             Inr (r, st') \<and>
           map fst (take 4 (i2c_log st')) =
             [[0x30, 0x01, 0x00], [0x30, 0x30, 0], [0x30, 0x6C, 240, 0], [0x30, 0x01, 0x01]])"
proof -
  have h: "\<not> hdr (mode probed_colour)" "hdr (supported_modes_16bit ! Suc 0)"
    by (simp_all add: probed_colour_def supported_modes_12bit_def supported_modes_16bit_def)
  have s: "sint (82 :: s32) = 82" "sint (79 :: s32) = 79" "sint (240 :: s32) = 240"
    by simp_all
  show ?thesis
    using gain_stage_selection [of 82 "probed_colour\<lparr>pm_usage := 1\<rparr>" 0]
      gain_stage_selection [of 79 "probed_colour\<lparr>pm_usage := 1\<rparr>" 0]
      gain_stage_selection [of 240
        "probed_colour\<lparr>mode := supported_modes_16bit ! 1, pm_usage := 1\<rparr>" 0]
    by (auto simp add: spec_gain_select_def h s)
qed

section \<open>Line length: the claim\<close>

text \<open>C9. The claim: a horizontal blanking committed while the device is powered gives the
  line length \<open>round ((width + hblank) * rate / (width * rate / min_line_length))\<close>, rounded
  exactly and not truncated. The code: in the 1080p mode (width 1928, minimal line length
  366) a horizontal blanking of 3 gives \<open>HMAX = 366\<close>, where the rounded quotient
  (366.57) is 367.\<close>

theorem hblank_line_length_counterexample:
  "imx586_set_ctrl 0 V4L2_CID_HBLANK 3 in_use_1080 =
     Inr (0, in_use_1080\<lparr>HMAX := 366, i2c_log := [([0x30, 0x2C, 0x6E, 0x01], 4)]\<rparr>) \<and>
   spec_line_length (mode in_use_1080) 3 = 367"
  by (simp add: in_use_1080_def probed_colour_def imx586_set_ctrl_def imx586_set_ctrl_switch_def
      supported_modes_12bit_def bindF_def do_div_def Let_def pm_runtime_get_if_in_use_def
      pm_runtime_put_def write_reg_2byte_eq put_unaligned_be16_def spec_line_length_def
      round_def)

text \<open>C9 as amended: for a mode of the catalog and a horizontal blanking in the range
  [0, 0xFFFF] of the control, committed while the device is in use, the handler returns and
  the new line length is the quotient, rounded down, of \<open>(width + hblank) * rate\<close> by the
  quotient, rounded down, of \<open>width * rate\<close> by the minimal line length of the mode.\<close>

theorem hblank_line_length:
  assumes m: "mode st \<in> set mode_catalog" and p: "0 < pm_usage st"
    and v: "0 \<le> sint v" "sint v \<le> 0xFFFF"
  shows "\<exists>r st'. imx586_set_ctrl uninit V4L2_CID_HBLANK v st = Inr (r, st') \<and>
           unat (HMAX st') =
             (unat (width (mode st)) + nat (sint v)) * 74250000 div
               (unat (width (mode st)) * 74250000 div unat (min_HMAX (mode st)))"
proof -
  let ?w = "width (mode st)" and ?mh = "min_HMAX (mode st)"
  have c1: "0 < unat ?mh" and c2: "unat ?mh < 2 ^ 32"
    and c3: "0 < unat ?w * 74250000 div unat ?mh"
    and c4: "unat ?w * 74250000 div unat ?mh < 2 ^ 32"
    and c5: "unat ?w \<le> 65535"
    and c6: "(unat ?w + 65535) * 74250000 div (unat ?w * 74250000 div unat ?mh) < 65536"
    using catalog_line [OF m] by auto
  have v': "sint v \<le> 65535" using v(2) by simp
  obtain pr hm where d1: "do_div (ucast ?w * 74250000) ?mh = Inr pr"
    and d2: "do_div (ucast (?w + v) * 74250000) pr = Inr hm"
    and u: "unat (ucast hm :: u16) =
              (unat ?w + nat (sint v)) * 74250000 div (unat ?w * 74250000 div unat ?mh)"
    using hblank_hmax_nat [OF c1 c2 c3 c4 v(1) v' c5 c6] by blast
  show ?thesis
    using p d1 d2 u
    by (simp add: imx586_set_ctrl_def imx586_set_ctrl_switch_def bindF_def Let_def
        pm_runtime_get_if_in_use_def pm_runtime_put_def write_reg_2byte_eq)
qed

theorem hblank_line_length_witness:
  "\<exists>r st'. imx586_set_ctrl 0 V4L2_CID_HBLANK 3 in_use_1080 = Inr (r, st') \<and>
           unat (HMAX st') = 366"
proof -
  have m: "mode in_use_1080 \<in> set mode_catalog"
    by (simp add: in_use_1080_def mode_catalog_def supported_modes_12bit_def)
  have p: "0 < pm_usage in_use_1080" by (simp add: in_use_1080_def)
  have v: "0 \<le> sint (3 :: s32)" "sint (3 :: s32) \<le> 0xFFFF" by simp_all
  have w: "width (mode in_use_1080) = 1928" "min_HMAX (mode in_use_1080) = 366"
    by (simp_all add: in_use_1080_def supported_modes_12bit_def)
  show ?thesis
    using hblank_line_length [OF m p v, of 0] by (simp add: w)
qed

section \<open>Streaming sequencer: the claims\<close>

text \<open>C2. The claim: the start of streaming freezes both flip controls, so that neither can
  be set while the sensor streams. The code: after a successful start of the probed colour
  sensor the vertical flip is grabbed and the horizontal flip is not; only
  \<open>__v4l2_ctrl_grab(imx586->vflip, enable)\<close> is called.\<close>

theorem stream_start_freezes_vflip_only:
  "imx586_set_stream 0 0 1 probed_colour = Inr (0, streaming_colour) \<and>
   streaming streaming_colour \<and> grabbed (vflip streaming_colour) \<and>
   \<not> grabbed (hflip streaming_colour)"
  using start_quiet by (simp add: streaming_colour_def probed_colour_def)

text \<open>C6. The claim: a failed register write at any step of the start sequence aborts the
  start and is reported; no failed step is skipped. The code: when the transfer of the
  black level fails with \<open>-EIO\<close> during the first start of the probed colour sensor,
  \<open>imx586_set_stream\<close> returns 0 and the sensor streams; the result of
  \<open>imx586_write_reg_2byte(imx586, IMX586_REG_BLKLEVEL, ...)\<close> is not read.\<close>

theorem black_level_failure_dropped:
  "imx586_set_stream 0 0 1 blk_fail_colour =
     Inr (0, streaming_colour\<lparr>i2c_log := start_messages (- EIO)\<rparr>) \<and>
   \<not> streaming blk_fail_colour \<and>
   streaming (streaming_colour\<lparr>i2c_log := start_messages (- EIO)\<rparr>) \<and>
   ([0x30, 0xDC, 0x00, 0x00], - EIO) \<in> set (start_messages (- EIO))"
  using start_blk_fail
  by (simp add: streaming_colour_def blk_fail_colour_def probed_colour_def start_messages_def)

text \<open>C6 as amended: from standby, with a mode of the catalog, a line length other than
  zero and a horizontal blanking within its range [0, 0xFFFF], \<open>imx586_set_stream\<close> with
  \<open>enable = 1\<close> returns. It returns a result other than zero, and leaves the streaming
  flag clear, whenever one of its transfers failed with a result other than zero on a
  register other than \<open>0x3001\<close> (register hold), \<open>0x306C\<close> (gain), \<open>0x30DC\<close> (black
  level), \<open>0x36E8\<close>, \<open>0x36EE\<close>, \<open>0x36E4\<close>, \<open>0x36EC\<close> (compression curve),
  \<open>0x36D0\<close>, \<open>0x36D4\<close>, \<open>0x36E2\<close> (HDR thresholds) and \<open>0x3458\<close> (digital clamp);
  the streaming flag is set exactly when the result is zero. A transfer that sends nothing
  (result zero) counts as a success in \<open>imx586_write_reg_1byte\<close> and
  \<open>imx586_write_reg_2byte\<close>, which return the result of the transfer.\<close>

theorem start_failure_aborts:
  assumes s: "\<not> streaming st"
    and m: "mode st \<in> set mode_catalog" and h: "HMAX st \<noteq> 0"
    and b: "0 \<le> sint (val (hblank st))" "sint (val (hblank st)) \<le> 0xFFFF"
  shows "\<exists>ret st'. imx586_set_stream uninit pm_ret 1 st = Inr (ret, st') \<and>
           (ret \<noteq> 0 \<longrightarrow> \<not> streaming st') \<and> (ret = 0 \<longrightarrow> streaming st') \<and>
           (\<exists>new. i2c_log st' = new @ i2c_log st \<and>
                  (list_ex aborting_failure new \<longrightarrow> ret \<noteq> 0))"
proof -
  have "start_ready st" using m h b by (simp add: start_ready_def)
  then obtain ret st' where r: "imx586_set_stream uninit pm_ret 1 st = Inr (ret, st')"
    using set_stream_total by blast
  show ?thesis using set_stream_checked [OF s r] r by blast
qed

theorem start_failure_aborts_witness:
  "\<not> streaming first_fail_colour \<and> mode first_fail_colour \<in> set mode_catalog \<and>
   HMAX first_fail_colour \<noteq> 0 \<and> val (hblank first_fail_colour) = 0 \<and>
   imx586_set_stream 0 0 1 first_fail_colour =
     Inr (- EIO, probed_colour\<lparr>i2c_log := [([0x30, 0x02, 0x01], - EIO)]\<rparr>) \<and>
   \<not> streaming (probed_colour\<lparr>i2c_log := [([0x30, 0x02, 0x01], - EIO)]\<rparr>) \<and>
   list_ex aborting_failure [([0x30, 0x02, 0x01], - EIO)]"
proof -
  have n: "\<not> streaming first_fail_colour"
    and m: "mode first_fail_colour \<in> set mode_catalog"
    and h: "HMAX first_fail_colour \<noteq> 0"
    and v: "val (hblank first_fail_colour) = 0"
    by (simp_all add: first_fail_colour_def probed_colour_def mode_catalog_def
        supported_modes_12bit_def)
  have b: "0 \<le> sint (val (hblank first_fail_colour))"
    "sint (val (hblank first_fail_colour)) \<le> 0xFFFF"
    by (simp_all add: v)
  have a: "list_ex aborting_failure [([0x30, 0x02, 0x01], - EIO)]"
    by (simp add: aborting_failure_def unchecked_regs_def put_unaligned_be16_def)
  show ?thesis
    using start_failure_aborts [OF n m h b, of 0 0] start_first_fail n m h v a by auto
qed

section \<open>Blanking and the range of the exposure: the claim\<close>

text \<open>What the two blanking handlers do with the range of the exposure control. A change
  of the vertical blanking stores \<open>VMAX = height + vblank\<close>, leaves \<open>HMAX\<close> as it is, and
  hands to the control framework, as the new range, the bounds derived from that \<open>HMAX\<close>
  and the new \<open>VMAX\<close> (for a line length other than zero, with which the derivation would
  divide by zero), whether the device is in use or not. A change of the horizontal blanking
  leaves the exposure control as it is.\<close>

lemma blanking_exposure_range:
  assumes h: "HMAX st \<noteq> 0"
  shows "(\<exists>r st'. imx586_set_ctrl uninit V4L2_CID_VBLANK v st = Inr (r, st') \<and>
            VMAX st' = ucast ((ucast (height (mode st)) :: u64) + scast v) \<and>
            HMAX st' = HMAX st \<and> mode st' = mode st \<and>
            calculate_min_max_v4l2_cid_exposure (ucast (HMAX st')) (ucast (VMAX st'))
              (min_SHR (mode st')) 0 209 =
              Inr (minimum (exposure st'), maximum (exposure st'))) \<and>
         (\<forall>r st'. imx586_set_ctrl uninit V4L2_CID_HBLANK v st = Inr (r, st') \<longrightarrow>
            exposure st' = exposure st)"
proof
  let ?vm = "ucast ((ucast (height (mode st)) :: u64) + scast v) :: u32"
  obtain mn mx where c: "calculate_min_max_v4l2_cid_exposure (ucast (HMAX st)) (ucast ?vm)
      (min_SHR (mode st)) 0 209 = Inr (mn, mx)"
    using calc_min_max_total [OF hmax_field_nonzero [OF h]] by blast
  show "\<exists>r st'. imx586_set_ctrl uninit V4L2_CID_VBLANK v st = Inr (r, st') \<and>
            VMAX st' = ?vm \<and> HMAX st' = HMAX st \<and> mode st' = mode st \<and>
            calculate_min_max_v4l2_cid_exposure (ucast (HMAX st')) (ucast (VMAX st'))
              (min_SHR (mode st')) 0 209 =
              Inr (minimum (exposure st'), maximum (exposure st'))"
    using c
    by (simp add: imx586_set_ctrl_def imx586_set_ctrl_switch_def bindF_def Let_def
        pm_runtime_get_if_in_use_def pm_runtime_put_def write_reg_3byte_eq
        v4l2_ctrl_modify_range_def)
next
  show "\<forall>r st'. imx586_set_ctrl uninit V4L2_CID_HBLANK v st = Inr (r, st') \<longrightarrow>
            exposure st' = exposure st"
    by (auto simp add: imx586_set_ctrl_def imx586_set_ctrl_switch_def bindF_def Let_def
        pm_runtime_get_if_in_use_def pm_runtime_put_def write_reg_2byte_eq
        split: sum.splits if_splits)
qed

text \<open>The value that the handler of the vertical blanking clamps and hands over as the
  new default of the exposure control is computed from the uninitialised local alone; the
  value of the exposure control is neither read nor written.\<close>

lemma vblank_default_follows_uninit:
  assumes h: "HMAX st \<noteq> 0"
  shows "\<exists>r st' mn mx.
           imx586_set_ctrl uninit V4L2_CID_VBLANK v st = Inr (r, st') \<and>
           calculate_min_max_v4l2_cid_exposure (ucast (HMAX st))
             (ucast (ucast ((ucast (height (mode st)) :: u64) + scast v) :: u32))
             (min_SHR (mode st)) 0 209 = Inr (mn, mx) \<and>
           default_value (exposure st') = ucast (clamp_t_u32 uninit mn mx) \<and>
           val (exposure st') = val (exposure st)"
proof -
  let ?vm = "ucast ((ucast (height (mode st)) :: u64) + scast v) :: u32"
  obtain mn mx where c: "calculate_min_max_v4l2_cid_exposure (ucast (HMAX st)) (ucast ?vm)
      (min_SHR (mode st)) 0 209 = Inr (mn, mx)"
    using calc_min_max_total [OF hmax_field_nonzero [OF h]] by blast
  show ?thesis
    using c
    by (simp add: imx586_set_ctrl_def imx586_set_ctrl_switch_def bindF_def Let_def
        pm_runtime_get_if_in_use_def pm_runtime_put_def write_reg_3byte_eq
        v4l2_ctrl_modify_range_def)
qed

text \<open>The range does not depend on the line length, once it is above the offset 209: a
  change of the horizontal blanking, which leaves the range as it is, leaves it equal to
  the one derived from the new line length.\<close>

lemma exposure_range_indep_hmax:
  fixes h h' :: u16 and vm :: u32
  assumes "209 < unat h" "209 < unat h'" "24 \<le> unat vm"
  shows "calculate_min_max_v4l2_cid_exposure (ucast h) (ucast vm) 20 0 209 =
         calculate_min_max_v4l2_cid_exposure (ucast h') (ucast vm) 20 0 209"
proof -
  obtain mn mx where a: "calculate_min_max_v4l2_cid_exposure (ucast h) (ucast vm) 20 0 209 =
      Inr (mn, mx)"
    and a1: "unat mn = unat vm - min (unat vm - 4) 65535" and a2: "unat mx = unat vm - 20"
    using exposure_bounds_nat [OF assms(1) assms(3)] by blast
  obtain mn' mx' where b: "calculate_min_max_v4l2_cid_exposure (ucast h') (ucast vm) 20 0 209 =
      Inr (mn', mx')"
    and b1: "unat mn' = unat vm - min (unat vm - 4) 65535" and b2: "unat mx' = unat vm - 20"
    using exposure_bounds_nat [OF assms(2) assms(3)] by blast
  have "mn = mn'" "mx = mx'" using a1 a2 b1 b2 by (simp_all add: word_unat_eq_iff)
  then show ?thesis using a b by simp
qed

text \<open>C1. The claim: a change of the blanking derives the range of the exposure control
  again and clamps the exposure configured before the change into the new range. The code:
  \<open>clamp_t(uint32_t, current_exposure, min_exposure, max_exposure)\<close> is applied to the
  local \<open>current_exposure\<close>, which nothing has been stored in. On the streaming colour
  sensor, with the exposure at 1000, a change of the vertical blanking from 70 to 200 gives
  the range [4, 2360] and hands over 4 when the local held 0, and 1500 when it held 1500;
  neither is the configured exposure, which lies in the new range.\<close>

theorem vblank_clamps_uninitialised:
  "imx586_set_ctrl 0 V4L2_CID_VBLANK 200 streaming_colour =
     Inr (0, streaming_colour
               \<lparr>VMAX := 2380,
                exposure := (exposure streaming_colour)
                              \<lparr>minimum := 4, maximum := 2360, default_value := 4\<rparr>,
                i2c_log := ([0x30, 0x28, 0x4C, 0x09, 0x00], 5) # start_messages 4\<rparr>) \<and>
   imx586_set_ctrl 1500 V4L2_CID_VBLANK 200 streaming_colour =
     Inr (0, streaming_colour
               \<lparr>VMAX := 2380,
                exposure := (exposure streaming_colour)
                              \<lparr>minimum := 4, maximum := 2360, default_value := 1500\<rparr>,
                i2c_log := ([0x30, 0x28, 0x4C, 0x09, 0x00], 5) # start_messages 4\<rparr>) \<and>
   val (exposure streaming_colour) = 1000 \<and>
   val (vblank streaming_colour) = 70"
  by (simp add: streaming_colour_def probed_colour_def
      imx586_set_ctrl_def imx586_set_ctrl_switch_def supported_modes_12bit_def
      bindF_def do_div_def Let_def pm_runtime_get_if_in_use_def pm_runtime_put_def
      write_reg_3byte_eq put_unaligned_be16_def v4l2_ctrl_modify_range_def
      calculate_min_max_v4l2_cid_exposure_def calculate_v4l2_cid_exposure_def clamp_t_u32_def)

end
